theory Spec2Isabelle
  imports Complex_Main "HOL-Library.AList"
begin

section \<open>Python values shared by the three Lambda functions\<close>

text \<open>
  Exceptions are values. \<open>ClientError code message operation\<close> is botocore's
  \<open>ClientError\<close> with \<open>e.response['Error']['Code']\<close>, \<open>e.response['Error']['Message']\<close>
  and the operation name; every other exception is \<open>PyError cls message\<close>, its
  class name and its text.
\<close>

datatype exn = ClientError string string string | PyError string string

fun exn_class :: "exn \<Rightarrow> string" where
  "exn_class (ClientError c m opn) = ''ClientError''"
| "exn_class (PyError k m) = k"

fun is_ClientError :: "exn \<Rightarrow> bool" where
  "is_ClientError (ClientError c m opn) = True"
| "is_ClientError (PyError k m) = False"

fun error_code :: "exn \<Rightarrow> string" where
  "error_code (ClientError c m opn) = c"
| "error_code (PyError k m) = []"

fun error_message :: "exn \<Rightarrow> string" where
  "error_message (ClientError c m opn) = m"
| "error_message (PyError k m) = m"

text \<open>\<open>str(e)\<close>, as the f-strings of the handlers render an exception.\<close>

fun str_exn :: "exn \<Rightarrow> string" where
  "str_exn (ClientError c m opn) =
     ''An error occurred ('' @ c @ '') when calling the '' @ opn @ '' operation: '' @ m"
| "str_exn (PyError k m) = m"

text \<open>\<open>KeyError(k)\<close>; its text is the key in quotes.\<close>

definition key_error :: "string \<Rightarrow> exn" where
  "key_error k = PyError ''KeyError'' ([CHR 0x27] @ k @ [CHR 0x27])"

text \<open>
  Truthiness of a value read with \<open>os.environ.get\<close> or \<open>event.get\<close>: \<open>None\<close> and the
  empty string are false.
\<close>

fun truthy :: "string option \<Rightarrow> bool" where
  "truthy None = False"
| "truthy (Some s) = (s \<noteq> [])"

text \<open>
  \<open>s.split(sep)\<close> for a non-empty separator: the scan runs left to right and
  matches do not overlap. \<open>cur\<close> is the piece being read.
\<close>

function split_from :: "string \<Rightarrow> string \<Rightarrow> string \<Rightarrow> string list" where
  "split_from sep cur [] = [cur]"
| "split_from sep cur (c # cs) =
     (if sep \<noteq> [] \<and> take (length sep) (c # cs) = sep
      then cur # split_from sep [] (drop (length sep) (c # cs))
      else split_from sep (cur @ [c]) cs)"
  by pat_completeness auto
termination
  by (relation "measure (\<lambda>(sep, cur, s). length s)") auto

definition split_py :: "string \<Rightarrow> string \<Rightarrow> string list" where
  "split_py s sep = split_from sep [] s"

text \<open>\<open>s.upper()\<close> on the ASCII letters, which is all a status word contains.\<close>

definition upper_char :: "char \<Rightarrow> char" where
  "upper_char c =
     (let n = (of_char c :: nat) in if 97 \<le> n \<and> n \<le> 122 then char_of (n - 32) else c)"

definition upper :: "string \<Rightarrow> string" where
  "upper s = map upper_char s"

text \<open>
  The handlers return \<open>{'statusCode': ..., 'body': json.dumps(...)}\<close>. The body is
  kept as the value handed to \<open>json.dumps\<close>: a string, or the remediation result
  dictionary. The Bedrock analyzer adds the key \<open>llm_analysis\<close> on success.
\<close>

record remediation_result =
  status :: string
  message :: string

datatype body = JsonStr string | JsonResult remediation_result

record response =
  statusCode :: int
  body :: body
  llm_analysis :: "string option"

section \<open>AWS requests\<close>

record public_access_block =
  BlockPublicAcls :: bool
  IgnorePublicAcls :: bool
  BlockPublicPolicy :: bool
  RestrictPublicBuckets :: bool

record ip_range =
  CidrIp :: "string option"
  Description :: "string option"

text \<open>
  One element of \<open>IpPermissions\<close>. The key \<open>IpRanges\<close> may be absent
  (\<open>'IpRanges' in ip_permission\<close>), so it is optional here.
\<close>

record ip_permission =
  IpProtocol :: string
  FromPort :: "int option"
  ToPort :: "int option"
  IpRanges :: "ip_range list option"
  Ipv6Ranges :: "string list"

record security_group =
  GroupId :: string
  IpPermissions :: "ip_permission list"

text \<open>
  Every request a handler sends is appended to a log, in the order sent and whether
  or not the service accepts it, so that "no such call was made" can be stated.
\<close>

datatype call =
    PutPublicAccessBlock string public_access_block
  | DescribeSecurityGroups "string list"
  | RevokeSecurityGroupIngress string "ip_permission list"
  | SnsPublish string string string
  | GetObject string string
  | InvokeEndpoint string string
  | StartExecution string string
  | GetResourceConfigHistory string
  | LookupEvents string string
  | GetCostAndUsage
  | InvokeModel string string

fun is_mutating :: "call \<Rightarrow> bool" where
  "is_mutating (PutPublicAccessBlock b c) = True"
| "is_mutating (RevokeSecurityGroupIngress g ps) = True"
| "is_mutating other = False"

fun is_publish :: "call \<Rightarrow> bool" where
  "is_publish (SnsPublish t s m) = True"
| "is_publish other = False"

section \<open>Remediation orchestrator\<close>

text \<open>
  The boto3 clients of \<open>remediation_orchestrator/index.py\<close>. The services are outside
  the repository, so each operation is a parameter: a function of the world \<open>'w\<close>
  that answers with an exception or a result and leaves a new world.
\<close>

record 'w remediation_clients =
  put_public_access_block :: "string \<Rightarrow> public_access_block \<Rightarrow> 'w \<Rightarrow> (exn + unit) \<times> 'w"
  describe_security_groups :: "string list \<Rightarrow> 'w \<Rightarrow> (exn + security_group list) \<times> 'w"
  revoke_security_group_ingress :: "string \<Rightarrow> ip_permission list \<Rightarrow> 'w \<Rightarrow> (exn + unit) \<times> 'w"
  sns_publish :: "string \<Rightarrow> string \<Rightarrow> string \<Rightarrow> 'w \<Rightarrow> (exn + unit) \<times> 'w"

text \<open>The state threaded through a handler: the world and the log of requests.\<close>

type_synonym 'w st = "'w \<times> call list"

definition s3_put :: "'w remediation_clients \<Rightarrow> string \<Rightarrow> public_access_block \<Rightarrow> 'w st
    \<Rightarrow> (exn + unit) \<times> 'w st" where
  "s3_put cl b cfg s =
     (case put_public_access_block cl b cfg (fst s) of
        (r, w') \<Rightarrow> (r, (w', snd s @ [PutPublicAccessBlock b cfg])))"

definition ec2_describe :: "'w remediation_clients \<Rightarrow> string list \<Rightarrow> 'w st
    \<Rightarrow> (exn + security_group list) \<times> 'w st" where
  "ec2_describe cl ids s =
     (case describe_security_groups cl ids (fst s) of
        (r, w') \<Rightarrow> (r, (w', snd s @ [DescribeSecurityGroups ids])))"

definition ec2_revoke :: "'w remediation_clients \<Rightarrow> string \<Rightarrow> ip_permission list \<Rightarrow> 'w st
    \<Rightarrow> (exn + unit) \<times> 'w st" where
  "ec2_revoke cl g ps s =
     (case revoke_security_group_ingress cl g ps (fst s) of
        (r, w') \<Rightarrow> (r, (w', snd s @ [RevokeSecurityGroupIngress g ps])))"

definition publish :: "'w remediation_clients \<Rightarrow> string \<Rightarrow> string \<Rightarrow> string \<Rightarrow> 'w st
    \<Rightarrow> (exn + unit) \<times> 'w st" where
  "publish cl topic subject msg s =
     (case sns_publish cl topic subject msg (fst s) of
        (r, w') \<Rightarrow> (r, (w', snd s @ [SnsPublish topic subject msg])))"

definition block_all :: public_access_block where
  "block_all = \<lparr>BlockPublicAcls = True, IgnorePublicAcls = True,
                BlockPublicPolicy = True, RestrictPublicBuckets = True\<rparr>"

text \<open>
  \<open>remediate_s3_public_access\<close>. Both \<open>except\<close> clauses log and re-raise, so an
  exception of the client leaves the function as it is.
\<close>

definition remediate_s3_public_access :: "'w remediation_clients \<Rightarrow> string \<Rightarrow> 'w st
    \<Rightarrow> (exn + remediation_result) \<times> 'w st" where
  "remediate_s3_public_access cl resource_id s =
     (let bucket_name = last (split_py resource_id '':::'') in
      case s3_put cl bucket_name block_all s of
        (Inl e, s') \<Rightarrow> (Inl e, s')
      | (Inr u, s') \<Rightarrow>
          (Inr \<lparr>status = ''success'',
                message = ''Blocked public access for S3 bucket '' @ bucket_name @ ''.''\<rparr>, s'))"

text \<open>
  The two nested loops of \<open>remediate_security_group\<close>: the permission is appended
  once for every range of it whose \<open>CidrIp\<close> is \<open>0.0.0.0/0\<close>.
\<close>

fun scan_ip_ranges :: "ip_permission \<Rightarrow> ip_range list \<Rightarrow> ip_permission list
    \<Rightarrow> ip_permission list" where
  "scan_ip_ranges ip_permission [] acc = acc"
| "scan_ip_ranges ip_permission (r # rs) acc =
     scan_ip_ranges ip_permission rs
       (if CidrIp r = Some ''0.0.0.0/0'' then acc @ [ip_permission] else acc)"

fun scan_ip_permissions :: "ip_permission list \<Rightarrow> ip_permission list \<Rightarrow> ip_permission list" where
  "scan_ip_permissions [] acc = acc"
| "scan_ip_permissions (p # ps) acc =
     scan_ip_permissions ps
       (case IpRanges p of None \<Rightarrow> acc | Some rs \<Rightarrow> scan_ip_ranges p rs acc)"

definition ingress_rules_to_revoke :: "ip_permission list \<Rightarrow> ip_permission list" where
  "ingress_rules_to_revoke perms = scan_ip_permissions perms []"

definition remediate_security_group :: "'w remediation_clients \<Rightarrow> string \<Rightarrow> 'w st
    \<Rightarrow> (exn + remediation_result) \<times> 'w st" where
  "remediate_security_group cl resource_id s =
     (let sg_id = last (split_py resource_id ''/'') in
      case ec2_describe cl [sg_id] s of
        (Inl e, s') \<Rightarrow> (Inl e, s')
      | (Inr groups, s') \<Rightarrow>
          (case groups of
             [] \<Rightarrow> (Inl (PyError ''IndexError'' ''list index out of range''), s')
           | sg_details # rest \<Rightarrow>
               (let to_revoke = ingress_rules_to_revoke (IpPermissions sg_details) in
                if to_revoke \<noteq> [] then
                  (case ec2_revoke cl sg_id to_revoke s' of
                     (Inl e, s'') \<Rightarrow> (Inl e, s'')
                   | (Inr u, s'') \<Rightarrow>
                       (Inr \<lparr>status = ''success'',
                             message = ''Revoked overly permissive ingress rules from SG ''
                                         @ sg_id @ ''.''\<rparr>, s''))
                else
                  (Inr \<lparr>status = ''no_action'',
                        message = ''No overly permissive rules found for SG '' @ sg_id @ ''.''\<rparr>,
                   s'))))"

text \<open>
  The event of the orchestrator. \<open>action\<close> and \<open>resourceId\<close> are what \<open>event.get\<close>
  returns (\<open>None\<close> when the key is missing); \<open>anomalyDetails\<close> is the text of
  \<open>json.dumps(event.get('anomalyDetails', {}), indent=2)\<close> and \<open>event_json\<close> the text of
  \<open>json.dumps(event)\<close>.
\<close>

record remediation_event =
  action :: "string option"
  resourceId :: "string option"
  anomalyDetails :: string
  event_json :: string

text \<open>The \<open>try\<close> block of \<open>lambda_handler\<close>: dispatch, then the status publish.\<close>

definition remediation_try :: "string \<Rightarrow> 'w remediation_clients \<Rightarrow> string \<Rightarrow> string \<Rightarrow> string
    \<Rightarrow> 'w st \<Rightarrow> (exn + response) \<times> 'w st" where
  "remediation_try topic cl act resource_id details s =
     (case (if act = ''remediate_s3_public_access'' then remediate_s3_public_access cl resource_id s
            else if act = ''remediate_security_group'' then remediate_security_group cl resource_id s
            else (Inr \<lparr>status = ''skipped'',
                       message = ''Unknown action '' @ [CHR 0x27] @ act @ [CHR 0x27] @ ''.''\<rparr>, s)) of
        (Inl e, s') \<Rightarrow> (Inl e, s')
      | (Inr remediation_result, s') \<Rightarrow>
          (let subject = ''Egress Remediation Status: '' @ upper (status remediation_result)
                           @ '' for '' @ act @ '' on '' @ resource_id;
               msg = ''Remediation Action: '' @ act @ [CHR 0x0A]
                     @ ''Resource ID: '' @ resource_id @ [CHR 0x0A]
                     @ ''Status: '' @ status remediation_result @ [CHR 0x0A]
                     @ ''Message: '' @ message remediation_result @ [CHR 0x0A]
                     @ ''Anomaly Details: '' @ details in
           case publish cl topic subject msg s' of
             (Inl e, s'') \<Rightarrow> (Inl e, s'')
           | (Inr u, s'') \<Rightarrow>
               (Inr \<lparr>statusCode = 200, body = JsonResult remediation_result,
                     llm_analysis = None\<rparr>, s'')))"

text \<open>
  \<open>lambda_handler\<close> of the orchestrator. \<open>topic_arn\<close> is the module constant
  \<open>SNS_ANOMALY_TOPIC_ARN\<close>. An exception of the publish in the \<open>except\<close> clause is
  not caught by anything: it leaves the handler (\<open>Inl\<close>).
\<close>

definition lambda_handler_remediation :: "string option \<Rightarrow> 'w remediation_clients \<Rightarrow> remediation_event
    \<Rightarrow> 'w st \<Rightarrow> (exn + response) \<times> 'w st" where
  "lambda_handler_remediation topic_arn cl event s =
     (if \<not> truthy topic_arn then
        (Inr \<lparr>statusCode = 500,
              body = JsonStr ''Configuration error: Missing SNS_ANOMALY_TOPIC_ARN.'',
              llm_analysis = None\<rparr>, s)
      else if \<not> truthy (action event) \<or> \<not> truthy (resourceId event) then
        (Inr \<lparr>statusCode = 400,
              body = JsonStr ''Bad Request: Missing action or resourceId.'',
              llm_analysis = None\<rparr>, s)
      else
        (let topic = the topic_arn; act = the (action event);
             resource_id = the (resourceId event) in
         case remediation_try topic cl act resource_id (anomalyDetails event) s of
           (Inr resp, s') \<Rightarrow> (Inr resp, s')
         | (Inl e, s') \<Rightarrow>
             (let error_msg = ''Remediation failed for action '' @ [CHR 0x27] @ act @ [CHR 0x27]
                                @ '' on '' @ [CHR 0x27] @ resource_id @ [CHR 0x27]
                                @ ''. Error: '' @ str_exn e in
              case publish cl topic
                     (''CRITICAL: Egress Remediation Failed for '' @ act @ '' on '' @ resource_id)
                     (error_msg @ [CHR 0x0A] @ ''Full event: '' @ event_json event) s' of
                (Inl e2, s'') \<Rightarrow> (Inl e2, s'')
              | (Inr u, s'') \<Rightarrow>
                  (Inr \<lparr>statusCode = 500,
                        body = JsonResult \<lparr>status = ''failed'', message = error_msg\<rparr>,
                        llm_analysis = None\<rparr>, s''))))"



section \<open>Data frames\<close>

text \<open>
  A pandas \<open>DataFrame\<close>, column by column as pandas stores it: the number of rows (the
  length of the index) and the named columns, each of one dtype. Floats are carried as
  reals; nothing below computes with them.
\<close>

datatype cell = IntV int | FloatV real | StrV string

datatype column = Int64 "int list" | Float64 "real list" | Object "string list"

record dataframe =
  nrows :: nat
  cols :: "(string \<times> column) list"

fun col_cells :: "column \<Rightarrow> cell list" where
  "col_cells (Int64 xs) = map IntV xs"
| "col_cells (Float64 xs) = map FloatV xs"
| "col_cells (Object xs) = map StrV xs"

text \<open>\<open>np.number\<close> covers the integer and the float dtypes.\<close>

fun is_number :: "column \<Rightarrow> bool" where
  "is_number (Int64 xs) = True"
| "is_number (Float64 xs) = True"
| "is_number (Object xs) = False"

text \<open>\<open>df.select_dtypes(include=np.number)\<close>: a new frame with the numeric columns.\<close>

definition select_dtypes_number :: "dataframe \<Rightarrow> dataframe" where
  "select_dtypes_number df = \<lparr>nrows = nrows df, cols = filter (\<lambda>c. is_number (snd c)) (cols df)\<rparr>"

text \<open>\<open>df.empty\<close>: one of the two axes has length zero.\<close>

definition empty_df :: "dataframe \<Rightarrow> bool" where
  "empty_df df = (nrows df = 0 \<or> cols df = [])"

text \<open>\<open>str(n)\<close> for a length: the decimal digits.\<close>

function show_nat :: "nat \<Rightarrow> string" where
  "show_nat n = (if n < 10 then [char_of (48 + n)]
                 else show_nat (n div 10) @ [char_of (48 + n mod 10)])"
  by pat_completeness auto
termination
  by (relation "measure id") auto

text \<open>
  \<open>df[name] = values\<close> on a frame with rows: a column of that name is replaced in
  place, a new name is appended after the last column; values of another length
  than the index raise \<open>ValueError\<close>, whose text gives the two lengths.
\<close>

definition set_column :: "dataframe \<Rightarrow> string \<Rightarrow> column \<Rightarrow> exn + dataframe" where
  "set_column df name values =
     (if length (col_cells values) \<noteq> nrows df
      then Inl (PyError ''ValueError''
                  (''Length of values ('' @ show_nat (length (col_cells values))
                   @ '') does not match length of index ('' @ show_nat (nrows df) @ '')''))
      else Inr (df\<lparr>cols := AList.update name values (cols df)\<rparr>))"

text \<open>The rows as \<open>to_json(orient='records')\<close> and \<open>iterrows\<close> give them: one dictionary per row.\<close>

definition to_records :: "dataframe \<Rightarrow> (string \<times> cell) list list" where
  "to_records df = map (\<lambda>i. map (\<lambda>c. (fst c, col_cells (snd c) ! i)) (cols df)) [0..<nrows df]"

section \<open>Detection trigger\<close>

text \<open>The environment variables read at module load, and the Lambda context object.\<close>

record environment =
  SAGEMAKER_ENDPOINT_NAME :: "string option"
  PROCESSED_DATA_BUCKET :: "string option"
  SNS_ANOMALY_TOPIC_ARN :: "string option"
  STEP_FUNCTION_ARN :: "string option"
  BEDROCK_MODEL_ID :: "string option"

record lambda_context =
  function_name :: string
  invoked_function_arn :: string

record 'w trigger_clients =
  s3_get_object :: "string \<Rightarrow> string \<Rightarrow> 'w \<Rightarrow> (exn + string) \<times> 'w"
  invoke_endpoint :: "string \<Rightarrow> string \<Rightarrow> 'w \<Rightarrow> (exn + string) \<times> 'w"
  start_execution :: "string \<Rightarrow> string \<Rightarrow> 'w \<Rightarrow> (exn + unit) \<times> 'w"
  trigger_publish :: "string \<Rightarrow> string \<Rightarrow> string \<Rightarrow> 'w \<Rightarrow> (exn + unit) \<times> 'w"

text \<open>A request sent through a client: the answer, the new world, the log extended.\<close>

definition request :: "call \<Rightarrow> ('w \<Rightarrow> (exn + 'a) \<times> 'w) \<Rightarrow> 'w st \<Rightarrow> (exn + 'a) \<times> 'w st" where
  "request c f s = (case f (fst s) of (r, w') \<Rightarrow> (r, (w', snd s @ [c])))"

text \<open>The input of one Step Functions execution.\<close>

record step_function_input =
  sf_anomalyType :: string
  sf_resourceId :: cell
  sf_costImpact :: cell
  sf_anomalyScore :: cell
  sf_timestamp :: cell
  sf_details :: "(string \<times> cell) list"

text \<open>
  What the handler takes from pandas and \<open>json\<close>. \<open>read_parquet\<close> stands for the
  evaluation of \<open>pd.read_parquet(io.BytesIO(response['Body'].read()))\<close>, \<open>to_json\<close> for
  \<open>df.to_json(orient='records')\<close>, \<open>parse_results\<close> for
  \<open>pd.DataFrame(json.loads(...))\<close>, \<open>json_dumps\<close> for \<open>json.dumps(step_function_input)\<close>
  and \<open>now\<close> for \<open>str(pd.Timestamp.now())\<close>.
\<close>

record trigger_lib =
  read_parquet :: "string \<Rightarrow> exn + dataframe"
  to_json :: "dataframe \<Rightarrow> string"
  parse_results :: "string \<Rightarrow> exn + dataframe"
  json_dumps :: "step_function_input \<Rightarrow> exn + string"
  now :: string

text \<open>
  The module \<open>anomaly_detector_trigger/index.py\<close> never imports \<open>io\<close>, so as written the
  evaluation of \<open>io.BytesIO\<close> raises \<open>NameError\<close> whenever the object was fetched.
\<close>

definition as_written :: "trigger_lib \<Rightarrow> trigger_lib" where
  "as_written lib =
     lib\<lparr>read_parquet :=
           (\<lambda>b. Inl (PyError ''NameError'' (''name '' @ [CHR 0x27] @ ''io'' @ [CHR 0x27]
                                              @ '' is not defined'')))\<rparr>"

definition get_or :: "(string \<times> cell) list \<Rightarrow> string \<Rightarrow> cell \<Rightarrow> cell" where
  "get_or row k d = (case map_of row k of None \<Rightarrow> d | Some v \<Rightarrow> v)"

fun is_one :: "cell option \<Rightarrow> bool" where
  "is_one (Some (IntV i)) = (i = 1)"
| "is_one (Some (FloatV x)) = (x = 1)"
| "is_one other = False"

text \<open>The loop over \<open>anomalies.iterrows()\<close>: it stops at the first exception.\<close>

fun start_executions :: "'w trigger_clients \<Rightarrow> trigger_lib \<Rightarrow> string
    \<Rightarrow> (string \<times> cell) list list \<Rightarrow> 'w st \<Rightarrow> (exn + unit) \<times> 'w st" where
  "start_executions cl lib arn [] s = (Inr (), s)"
| "start_executions cl lib arn (anomaly # others) s =
     (let step_input = \<lparr>sf_anomalyType = ''EgressCostSpike'',
                        sf_resourceId = get_or anomaly ''resource_id'' (StrV ''unknown''),
                        sf_costImpact = get_or anomaly ''daily_egress_cost_usd'' (IntV 0),
                        sf_anomalyScore = get_or anomaly ''anomaly_score'' (IntV 0),
                        sf_timestamp = get_or anomaly ''usage_date'' (StrV (now lib)),
                        sf_details = anomaly\<rparr> in
      case json_dumps lib step_input of
        Inl e \<Rightarrow> (Inl e, s)
      | Inr text \<Rightarrow>
          (case request (StartExecution arn text) (start_execution cl arn text) s of
             (Inl e, s') \<Rightarrow> (Inl e, s')
           | (Inr u, s') \<Rightarrow> start_executions cl lib arn others s'))"

text \<open>
  The outer \<open>try\<close> block of the trigger's \<open>lambda_handler\<close>. The inner \<open>try\<close> turns a
  \<open>ClientError\<close> with code \<open>NoSuchKey\<close> into the "no new data" answer and re-raises
  everything else.
\<close>

definition trigger_try :: "environment \<Rightarrow> 'w trigger_clients \<Rightarrow> trigger_lib \<Rightarrow> 'w st
    \<Rightarrow> (exn + response) \<times> 'w st" where
  "trigger_try env cl lib s =
     (let latest_data_key = ''processed_egress_costs/processed_features/latest_features.parquet'';
          bucket = the (PROCESSED_DATA_BUCKET env);
          endpoint = the (SAGEMAKER_ENDPOINT_NAME env) in
      case request (GetObject bucket latest_data_key) (s3_get_object cl bucket latest_data_key) s of
        (fetched, s1) \<Rightarrow>
          (case (case fetched of Inl e \<Rightarrow> Inl e | Inr b \<Rightarrow> read_parquet lib b) of
             Inl e \<Rightarrow>
               (if is_ClientError e \<and> error_code e = ''NoSuchKey''
                then (Inr \<lparr>statusCode = 200, body = JsonStr ''No new data for inference.'',
                           llm_analysis = None\<rparr>, s1)
                else (Inl e, s1))
           | Inr df_latest_features \<Rightarrow>
               (let inference_payload = to_json lib df_latest_features in
                case request (InvokeEndpoint endpoint inference_payload)
                       (invoke_endpoint cl endpoint inference_payload) s1 of
                  (Inl e, s2) \<Rightarrow> (Inl e, s2)
                | (Inr answer, s2) \<Rightarrow>
                    (case parse_results lib answer of
                       Inl e \<Rightarrow> (Inl e, s2)
                     | Inr df_inference_results \<Rightarrow>
                         (case map_of (cols df_inference_results) ''is_anomaly'' of
                            None \<Rightarrow> (Inl (key_error ''is_anomaly''), s2)
                          | Some flags \<Rightarrow>
                              (let anomalies = filter (\<lambda>row. is_one (map_of row ''is_anomaly''))
                                                 (to_records df_inference_results) in
                               case start_executions cl lib (the (STEP_FUNCTION_ARN env))
                                      anomalies s2 of
                                 (Inl e, s3) \<Rightarrow> (Inl e, s3)
                               | (Inr u, s3) \<Rightarrow>
                                   (Inr \<lparr>statusCode = 200,
                                         body = JsonStr ''Anomaly detection process completed.'',
                                         llm_analysis = None\<rparr>, s3)))))))"

text \<open>
  The trigger's \<open>lambda_handler\<close>. Each \<open>except\<close> clause publishes an alert and then
  returns 500; nothing catches an exception of that publish.
\<close>

definition lambda_handler_trigger :: "environment \<Rightarrow> lambda_context \<Rightarrow> 'w trigger_clients
    \<Rightarrow> trigger_lib \<Rightarrow> 'w st \<Rightarrow> (exn + response) \<times> 'w st" where
  "lambda_handler_trigger env context cl lib s =
     (if \<not> (truthy (SAGEMAKER_ENDPOINT_NAME env) \<and> truthy (PROCESSED_DATA_BUCKET env)
             \<and> truthy (SNS_ANOMALY_TOPIC_ARN env) \<and> truthy (STEP_FUNCTION_ARN env)) then
        (Inr \<lparr>statusCode = 500,
              body = JsonStr ''Configuration error: Missing environment variables.'',
              llm_analysis = None\<rparr>, s)
      else
        (case trigger_try env cl lib s of
           (Inr resp, s') \<Rightarrow> (Inr resp, s')
         | (Inl e, s') \<Rightarrow>
             (let topic = the (SNS_ANOMALY_TOPIC_ARN env);
                  subject = ''CRITICAL: Egress Anomaly Detector Trigger Failed in ''
                              @ function_name context in
              if is_ClientError e then
                (let msg = ''An AWS client error occurred: '' @ error_message e @ [CHR 0x0A]
                             @ ''Function ARN: '' @ invoked_function_arn context in
                 case request (SnsPublish topic subject msg) (trigger_publish cl topic subject msg) s' of
                   (Inl e2, s'') \<Rightarrow> (Inl e2, s'')
                 | (Inr u, s'') \<Rightarrow>
                     (Inr \<lparr>statusCode = 500,
                           body = JsonStr (''AWS Client Error: '' @ error_message e),
                           llm_analysis = None\<rparr>, s''))
              else
                (let msg = ''An unexpected error occurred: '' @ str_exn e @ [CHR 0x0A]
                             @ ''Function ARN: '' @ invoked_function_arn context in
                 case request (SnsPublish topic subject msg) (trigger_publish cl topic subject msg) s' of
                   (Inl e2, s'') \<Rightarrow> (Inl e2, s'')
                 | (Inr u, s'') \<Rightarrow>
                     (Inr \<lparr>statusCode = 500,
                           body = JsonStr (''Internal Server Error: '' @ str_exn e),
                           llm_analysis = None\<rparr>, s'')))))"

section \<open>Bedrock analyzer\<close>

text \<open>
  The answers of the three evidence sources, with the keys the f-strings subscript. A
  key that is absent is \<open>None\<close> here and a \<open>KeyError\<close> when it is subscripted.
\<close>

record configuration_item =
  configurationItemCaptureTime :: "string option"
  changeType :: "string option"
  configurationItemStatus :: "string option"

record trail_event =
  EventTime :: "string option"
  EventName :: "string option"
  Username :: "string option"

record time_period =
  Start :: "string option"

record blended_cost =
  Amount :: "string option"
  Unit :: "string option"

record total =
  BlendedCost :: "blended_cost option"

record cost_result =
  TimePeriod :: "time_period option"
  Total :: "total option"

record 'w analyzer_clients =
  prompt_get_object :: "string \<Rightarrow> string \<Rightarrow> 'w \<Rightarrow> (exn + string) \<times> 'w"
  get_resource_config_history :: "string \<Rightarrow> 'w \<Rightarrow> (exn + configuration_item list) \<times> 'w"
  lookup_events :: "string \<Rightarrow> string \<Rightarrow> 'w \<Rightarrow> (exn + trail_event list) \<times> 'w"
  get_cost_and_usage :: "'w \<Rightarrow> (exn + cost_result list) \<times> 'w"
  invoke_model :: "string \<Rightarrow> string \<Rightarrow> 'w \<Rightarrow> (exn + string option) \<times> 'w"
  analyzer_publish :: "string \<Rightarrow> string \<Rightarrow> string \<Rightarrow> 'w \<Rightarrow> (exn + unit) \<times> 'w"

text \<open>
  What the analyzer takes from pandas and \<open>str\<close>: \<open>pd_Timestamp\<close> is the evaluation of
  \<open>pd.Timestamp(anomaly_details.get('timestamp', pd.Timestamp.now()))\<close>, which raises on
  a text that is no timestamp; \<open>prompt_format\<close> is \<open>prompt_template.format(...)\<close> with
  the five keyword arguments in the order of the source.
\<close>

record analyzer_lib =
  pd_Timestamp :: "string option \<Rightarrow> exn + unit"
  prompt_format :: "string \<Rightarrow> string \<Rightarrow> string \<Rightarrow> string \<Rightarrow> string \<Rightarrow> string \<Rightarrow> exn + string"

text \<open>
  The event of the analyzer: what \<open>event.get\<close> finds for \<open>resourceId\<close>, \<open>anomalyType\<close>
  and \<open>costImpact\<close> (as text), the timestamp inside \<open>details\<close>, the text of
  \<open>json.dumps(anomaly_details, indent=2)\<close> and the text of \<open>json.dumps(event)\<close>.
\<close>

record analyzer_event =
  ev_resourceId :: "string option"
  ev_anomalyType :: "string option"
  ev_costImpact :: "string option"
  ev_timestamp :: "string option"
  ev_details :: string
  ev_json :: string

text \<open>The f-strings of the three loops.\<close>

definition config_line :: "configuration_item \<Rightarrow> exn + string" where
  "config_line item =
     (case configurationItemCaptureTime item of
        None \<Rightarrow> Inl (key_error ''configurationItemCaptureTime'')
      | Some t \<Rightarrow>
          (case changeType item of
             None \<Rightarrow> Inl (key_error ''changeType'')
           | Some c \<Rightarrow>
               (case configurationItemStatus item of
                  None \<Rightarrow> Inl (key_error ''configurationItemStatus'')
                | Some st \<Rightarrow>
                    Inr (''Timestamp: '' @ t @ '', ChangeType: '' @ c @ '', Status: '' @ st))))"

definition event_line :: "trail_event \<Rightarrow> exn + string" where
  "event_line ev =
     (case EventTime ev of
        None \<Rightarrow> Inl (key_error ''EventTime'')
      | Some t \<Rightarrow>
          (case EventName ev of
             None \<Rightarrow> Inl (key_error ''EventName'')
           | Some n \<Rightarrow>
               (case Username ev of
                  None \<Rightarrow> Inl (key_error ''Username'')
                | Some u \<Rightarrow>
                    Inr (''EventTime: '' @ t @ '', EventName: '' @ n @ '', User: '' @ u))))"

text \<open>
  The subscripts of one path, left to right: \<open>result['Total']['BlendedCost'][k]\<close>.
\<close>

definition blended :: "cost_result \<Rightarrow> (blended_cost \<Rightarrow> string option) \<Rightarrow> string
    \<Rightarrow> exn + string" where
  "blended res field k =
     (case Total res of
        None \<Rightarrow> Inl (key_error ''Total'')
      | Some t \<Rightarrow>
          (case BlendedCost t of
             None \<Rightarrow> Inl (key_error ''BlendedCost'')
           | Some b \<Rightarrow>
               (case field b of None \<Rightarrow> Inl (key_error k) | Some v \<Rightarrow> Inr v)))"

definition cost_line :: "cost_result \<Rightarrow> exn + string" where
  "cost_line res =
     (case TimePeriod res of
        None \<Rightarrow> Inl (key_error ''TimePeriod'')
      | Some period \<Rightarrow>
          (case Start period of
             None \<Rightarrow> Inl (key_error ''Start'')
           | Some d \<Rightarrow>
               (case blended res Amount ''Amount'' of
                  Inl e \<Rightarrow> Inl e
                | Inr a \<Rightarrow>
                    (case blended res Unit ''Unit'' of
                       Inl e \<Rightarrow> Inl e
                     | Inr u \<Rightarrow> Inr (''Date: '' @ d @ '', Total Cost: '' @ a @ '' '' @ u)))))"

text \<open>A \<open>for\<close> loop that appends one line per element and stops at the first exception.\<close>

fun append_lines :: "('a \<Rightarrow> exn + string) \<Rightarrow> 'a list \<Rightarrow> string list \<Rightarrow> exn + string list" where
  "append_lines f [] context_data = Inr context_data"
| "append_lines f (x # xs) context_data =
     (case f x of Inl e \<Rightarrow> Inl e | Inr line \<Rightarrow> append_lines f xs (context_data @ [line]))"

text \<open>\<open>if response.get(key): header, one line per element, an empty line\<close>.\<close>

definition append_section :: "string \<Rightarrow> ('a \<Rightarrow> exn + string) \<Rightarrow> 'a list \<Rightarrow> string list
    \<Rightarrow> exn + string list" where
  "append_section header f xs context_data =
     (if xs = [] then Inr context_data
      else (case append_lines f xs (context_data @ [header]) of
              Inl e \<Rightarrow> Inl e
            | Inr ls \<Rightarrow> Inr (ls @ [[]])))"

text \<open>
  \<open>try: ... except ClientError: logger.warning(...)\<close>: a \<open>ClientError\<close> is absorbed and
  the evidence collected so far is kept; any other exception goes on.
\<close>

definition except_ClientError :: "string list \<Rightarrow> (exn + string list) \<times> 'w st
    \<Rightarrow> (exn + string list) \<times> 'w st" where
  "except_ClientError context_data r =
     (case r of
        (Inl e, s') \<Rightarrow> if is_ClientError e then (Inr context_data, s') else (Inl e, s')
      | (Inr ls, s') \<Rightarrow> (Inr ls, s'))"

text \<open>\<open>xs[i]\<close> for a non-negative index.\<close>

definition subscript :: "'a list \<Rightarrow> nat \<Rightarrow> exn + 'a" where
  "subscript xs i = (if i < length xs then Inr (xs ! i)
                     else Inl (PyError ''IndexError'' ''list index out of range''))"

definition join :: "string \<Rightarrow> string list \<Rightarrow> string" where
  "join sep ls = (case ls of [] \<Rightarrow> [] | l # rest \<Rightarrow> foldl (\<lambda>acc x. acc @ sep @ x) l rest)"

text \<open>
  \<open>get_contextual_data\<close>. In the second block the arguments are evaluated before the
  call: first \<open>resource_id.split('/')[-1]\<close> and \<open>resource_id.split('/')[6]\<close>, then the
  two timestamps.
\<close>

definition config_block :: "'w analyzer_clients \<Rightarrow> string \<Rightarrow> string list \<Rightarrow> 'w st
    \<Rightarrow> (exn + string list) \<times> 'w st" where
  "config_block cl resource_id context_data s =
     except_ClientError context_data
       (case request (GetResourceConfigHistory resource_id)
               (get_resource_config_history cl resource_id) s of
          (Inl e, s') \<Rightarrow> (Inl e, s')
        | (Inr items, s') \<Rightarrow>
            (append_section ''--- AWS Config Recent Changes ---'' config_line items context_data, s'))"

definition trail_block :: "'w analyzer_clients \<Rightarrow> analyzer_lib \<Rightarrow> string \<Rightarrow> string option
    \<Rightarrow> string list \<Rightarrow> 'w st \<Rightarrow> (exn + string list) \<times> 'w st" where
  "trail_block cl lib resource_id ts context_data s =
     except_ClientError context_data
       (let resource_name = last (split_py resource_id ''/'') in
        case subscript (split_py resource_id ''/'') 6 of
          Inl e \<Rightarrow> (Inl e, s)
        | Inr resource_type \<Rightarrow>
            (case pd_Timestamp lib ts of
               Inl e \<Rightarrow> (Inl e, s)
             | Inr u \<Rightarrow>
                 (case request (LookupEvents resource_name resource_type)
                         (lookup_events cl resource_name resource_type) s of
                    (Inl e, s') \<Rightarrow> (Inl e, s')
                  | (Inr events, s') \<Rightarrow>
                      (append_section ''--- AWS CloudTrail Recent Events ---'' event_line
                         (take 5 events) context_data, s'))))"

definition cost_block :: "'w analyzer_clients \<Rightarrow> analyzer_lib \<Rightarrow> string option
    \<Rightarrow> string list \<Rightarrow> 'w st \<Rightarrow> (exn + string list) \<times> 'w st" where
  "cost_block cl lib ts context_data s =
     except_ClientError context_data
       (case pd_Timestamp lib ts of
          Inl e \<Rightarrow> (Inl e, s)
        | Inr u \<Rightarrow>
            (case request GetCostAndUsage (get_cost_and_usage cl) s of
               (Inl e, s') \<Rightarrow> (Inl e, s')
             | (Inr results, s') \<Rightarrow>
                 (append_section ''--- AWS Cost Explorer Snapshot ---'' cost_line results
                    context_data, s')))"

definition get_contextual_data :: "'w analyzer_clients \<Rightarrow> analyzer_lib \<Rightarrow> string
    \<Rightarrow> string option \<Rightarrow> 'w st \<Rightarrow> (exn + string) \<times> 'w st" where
  "get_contextual_data cl lib resource_id ts s =
     (case config_block cl resource_id [] s of
        (Inl e, s1) \<Rightarrow> (Inl e, s1)
      | (Inr c1, s1) \<Rightarrow>
          (case trail_block cl lib resource_id ts c1 s1 of
             (Inl e, s2) \<Rightarrow> (Inl e, s2)
           | (Inr c2, s2) \<Rightarrow>
               (case cost_block cl lib ts c2 s2 of
                  (Inl e, s3) \<Rightarrow> (Inl e, s3)
                | (Inr c3, s3) \<Rightarrow> (Inr (join [CHR 0x0A] c3), s3))))"

definition PROMPT_TEMPLATE_KEY :: string where
  "PROMPT_TEMPLATE_KEY = ''bedrock_prompts/egress_root_cause_prompt.txt''"

text \<open>\<open>load_prompt_template\<close>, \<open>invoke_bedrock_llm\<close> and \<open>publish_enriched_alert\<close> log and re-raise.\<close>

definition load_prompt_template :: "'w analyzer_clients \<Rightarrow> string \<Rightarrow> string \<Rightarrow> 'w st
    \<Rightarrow> (exn + string) \<times> 'w st" where
  "load_prompt_template cl bucket_name k s =
     request (GetObject bucket_name k) (prompt_get_object cl bucket_name k) s"

definition invoke_bedrock_llm :: "'w analyzer_clients \<Rightarrow> string \<Rightarrow> string \<Rightarrow> 'w st
    \<Rightarrow> (exn + string option) \<times> 'w st" where
  "invoke_bedrock_llm cl model_id prompt s =
     (let text = [CHR 0x0A, CHR 0x0A] @ ''Human: '' @ prompt @ [CHR 0x0A, CHR 0x0A] @ ''Assistant:'' in
      request (InvokeModel model_id text) (invoke_model cl model_id text) s)"

definition publish_enriched_alert :: "'w analyzer_clients \<Rightarrow> string \<Rightarrow> string \<Rightarrow> string \<Rightarrow> 'w st
    \<Rightarrow> (exn + unit) \<times> 'w st" where
  "publish_enriched_alert cl topic subject msg s =
     request (SnsPublish topic subject msg) (analyzer_publish cl topic subject msg) s"

definition or_default :: "string option \<Rightarrow> string \<Rightarrow> string" where
  "or_default v d = (case v of None \<Rightarrow> d | Some x \<Rightarrow> x)"

text \<open>The \<open>try\<close> block of the analyzer's \<open>lambda_handler\<close>.\<close>

definition analyzer_try :: "environment \<Rightarrow> 'w analyzer_clients \<Rightarrow> analyzer_lib \<Rightarrow> analyzer_event
    \<Rightarrow> 'w st \<Rightarrow> (exn + response) \<times> 'w st" where
  "analyzer_try env cl lib event s =
     (let resource_id = or_default (ev_resourceId event) ''N/A'';
          anomaly_type = or_default (ev_anomalyType event) ''EgressCostSpike'';
          cost_impact = or_default (ev_costImpact event) ''N/A'' in
      case load_prompt_template cl (the (PROCESSED_DATA_BUCKET env)) PROMPT_TEMPLATE_KEY s of
        (Inl e, s1) \<Rightarrow> (Inl e, s1)
      | (Inr prompt_template, s1) \<Rightarrow>
          (if prompt_template = [] then
             (Inl (PyError ''Exception'' ''Failed to load Bedrock prompt template.''), s1)
           else
             (case get_contextual_data cl lib resource_id (ev_timestamp event) s1 of
                (Inl e, s2) \<Rightarrow> (Inl e, s2)
              | (Inr context_data, s2) \<Rightarrow>
                  (case prompt_format lib prompt_template anomaly_type resource_id cost_impact
                          (ev_details event) context_data of
                     Inl e \<Rightarrow> (Inl e, s2)
                   | Inr full_prompt \<Rightarrow>
                       (case invoke_bedrock_llm cl (the (BEDROCK_MODEL_ID env)) full_prompt s2 of
                          (Inl e, s3) \<Rightarrow> (Inl e, s3)
                        | (Inr None, s3) \<Rightarrow>
                            (Inl (PyError ''TypeError''
                                    ([CHR 0x27] @ ''NoneType'' @ [CHR 0x27]
                                     @ '' object is not subscriptable'')), s3)
                        | (Inr (Some llm_response_text), s3) \<Rightarrow>
                            (let subject = ''Egress Anomaly Detected: '' @ anomaly_type
                                             @ '' on '' @ resource_id;
                                 msg = ''An egress cost anomaly has been detected.''
                                       @ [CHR 0x0A, CHR 0x0A]
                                       @ ''Anomaly Type: '' @ anomaly_type @ [CHR 0x0A]
                                       @ ''Resource ID: '' @ resource_id @ [CHR 0x0A]
                                       @ ''Cost Impact: $'' @ cost_impact @ [CHR 0x0A, CHR 0x0A]
                                       @ ''--- AI-Powered Root Cause Analysis & Recommendations ---''
                                       @ [CHR 0x0A] @ llm_response_text @ [CHR 0x0A, CHR 0x0A]
                                       @ ''--- Raw Anomaly Details ---'' @ [CHR 0x0A]
                                       @ ev_details event in
                             case publish_enriched_alert cl (the (SNS_ANOMALY_TOPIC_ARN env))
                                    subject msg s3 of
                               (Inl e, s4) \<Rightarrow> (Inl e, s4)
                             | (Inr u, s4) \<Rightarrow>
                                 (Inr \<lparr>statusCode = 200,
                                       body = JsonStr ''Bedrock analysis completed and alert sent.'',
                                       llm_analysis = Some llm_response_text\<rparr>, s4)))))))"

text \<open>The analyzer's \<open>lambda_handler\<close>.\<close>

definition lambda_handler_analyzer :: "environment \<Rightarrow> 'w analyzer_clients \<Rightarrow> analyzer_lib
    \<Rightarrow> analyzer_event \<Rightarrow> 'w st \<Rightarrow> (exn + response) \<times> 'w st" where
  "lambda_handler_analyzer env cl lib event s =
     (if \<not> (truthy (BEDROCK_MODEL_ID env) \<and> truthy (SNS_ANOMALY_TOPIC_ARN env)
             \<and> truthy (PROCESSED_DATA_BUCKET env)) then
        (Inr \<lparr>statusCode = 500,
              body = JsonStr ''Configuration error: Missing environment variables.'',
              llm_analysis = None\<rparr>, s)
      else
        (let resource_id = or_default (ev_resourceId event) ''N/A'';
             anomaly_type = or_default (ev_anomalyType event) ''EgressCostSpike'' in
         case analyzer_try env cl lib event s of
           (Inr resp, s') \<Rightarrow> (Inr resp, s')
         | (Inl e, s') \<Rightarrow>
             (case publish_enriched_alert cl (the (SNS_ANOMALY_TOPIC_ARN env))
                     (''CRITICAL: Bedrock Analyzer Failed for '' @ resource_id)
                     (''Bedrock analysis failed for anomaly on resource '' @ resource_id
                      @ '' (Type: '' @ anomaly_type @ ''). Error: '' @ str_exn e @ [CHR 0x0A]
                      @ ''Full event: '' @ ev_json event) s' of
                (Inl e2, s'') \<Rightarrow> (Inl e2, s'')
              | (Inr u, s'') \<Rightarrow>
                  (Inr \<lparr>statusCode = 500,
                        body = JsonStr (''Internal Server Error: '' @ str_exn e),
                        llm_analysis = None\<rparr>, s''))))"

section \<open>Anomaly scorer: the inference script\<close>

text \<open>
  The fitted isolation forest is scikit-learn's: its two methods are parameters. They
  see the numeric columns only.
\<close>

record model =
  predict :: "dataframe \<Rightarrow> exn + int list"
  decision_function :: "dataframe \<Rightarrow> exn + real list"

text \<open>
  \<open>predict_fn\<close>. The numeric columns are selected before the two assignments, so the
  columns written here are not among the features of this call.
\<close>

definition predict_fn :: "dataframe \<Rightarrow> model \<Rightarrow> exn + dataframe" where
  "predict_fn input_data mdl =
     (let features_for_prediction = select_dtypes_number input_data in
      if empty_df features_for_prediction then
        Inl (PyError ''ValueError''
               ''No numerical features found in input data for prediction. Check input schema.'')
      else
        (case predict mdl features_for_prediction of
           Inl e \<Rightarrow> Inl e
         | Inr predictions \<Rightarrow>
             (let is_anomaly = map (\<lambda>p. if p = - 1 then 1 else 0) predictions in
              case set_column input_data ''is_anomaly'' (Int64 is_anomaly) of
                Inl e \<Rightarrow> Inl e
              | Inr flagged \<Rightarrow>
                  (case decision_function mdl features_for_prediction of
                     Inl e \<Rightarrow> Inl e
                   | Inr scores \<Rightarrow> set_column flagged ''anomaly_score'' (Float64 scores)))))"

text \<open>
  \<open>output_fn\<close>. The serialised text is kept as what it lists: the records of
  \<open>to_json(orient='records')\<close>, or the header and the rows of \<open>to_csv(index=False)\<close>.

  The JSON encoder of pandas does not write a float as it is: with the default
  \<open>double_precision\<close> it keeps 10 decimals. The encoder is not part of the repository,
  so the number that its text denotes is a parameter, \<open>json_float\<close>; integers and
  strings are written as they are. \<open>to_csv\<close> writes a float in full.
\<close>

datatype payload = JsonRecords "(string \<times> cell) list list" | CsvTable "string list" "cell list list"

fun json_cell :: "(real \<Rightarrow> real) \<Rightarrow> cell \<Rightarrow> cell" where
  "json_cell json_float (FloatV x) = FloatV (json_float x)"
| "json_cell json_float (IntV i) = IntV i"
| "json_cell json_float (StrV t) = StrV t"

definition json_record :: "(real \<Rightarrow> real) \<Rightarrow> (string \<times> cell) list \<Rightarrow> (string \<times> cell) list" where
  "json_record json_float row = map (\<lambda>kv. (fst kv, json_cell json_float (snd kv))) row"

definition output_fn :: "(real \<Rightarrow> real) \<Rightarrow> dataframe \<Rightarrow> string \<Rightarrow> exn + payload \<times> string" where
  "output_fn json_float prediction_output accept_content_type =
     (if accept_content_type = ''application/json'' then
        Inr (JsonRecords (map (json_record json_float) (to_records prediction_output)),
             accept_content_type)
      else if accept_content_type = ''text/csv'' then
        Inr (CsvTable (map fst (cols prediction_output))
               (map (map snd) (to_records prediction_output)), accept_content_type)
      else
        Inl (PyError ''ValueError''
               (''Unsupported accept type: '' @ accept_content_type
                @ ''. This endpoint supports '' @ [CHR 0x27] @ ''application/json'' @ [CHR 0x27]
                @ '' and '' @ [CHR 0x27] @ ''text/csv'' @ [CHR 0x27] @ ''.'')))"

text \<open>Scoring one request: \<open>predict_fn\<close> followed by \<open>output_fn\<close>.\<close>

definition score :: "(real \<Rightarrow> real) \<Rightarrow> dataframe \<Rightarrow> model \<Rightarrow> string
    \<Rightarrow> exn + payload \<times> string" where
  "score json_float input_data mdl accept_content_type =
     (case predict_fn input_data mdl of
        Inl e \<Rightarrow> Inl e
      | Inr prediction_output \<Rightarrow> output_fn json_float prediction_output accept_content_type)"

text \<open>
  Where the encoder writes fixed notation (magnitudes between \<open>1e-15\<close> and \<open>1e16\<close>)
  and the value is no exact tie, the number written is the nearest one with 10
  decimals.
\<close>

definition ten_decimals :: "real \<Rightarrow> real" where
  "ten_decimals x = of_int (round (x * 10 ^ 10)) / 10 ^ 10"

section \<open>Anomaly scorer: the training script\<close>

record hyperparameters =
  n_estimators :: int
  contamination :: real
  random_state :: int

text \<open>
  The main block of \<open>training_script.py\<close>. \<open>input_files\<close> is the listing of the training
  channel, \<open>load\<close> the concatenation of the Parquet files and \<open>fit\<close> the construction
  and fitting of the \<open>IsolationForest\<close>; the result is the model and \<open>num_features\<close> of
  the metrics file.
\<close>

definition training_main :: "hyperparameters \<Rightarrow> string list \<Rightarrow> (string list \<Rightarrow> exn + dataframe)
    \<Rightarrow> (hyperparameters \<Rightarrow> dataframe \<Rightarrow> exn + 'm) \<Rightarrow> exn + 'm \<times> nat" where
  "training_main args input_files load fit =
     (if input_files = [] then
        Inl (PyError ''ValueError''
               ''No input files found in the training channel. Ensure data is correctly passed.'')
      else
        (case load input_files of
           Inl e \<Rightarrow> Inl e
         | Inr df \<Rightarrow>
             (let features = select_dtypes_number df in
              if empty_df features then
                Inl (PyError ''ValueError''
                       ''No numerical features found in the training data. Check feature engineering output.'')
              else
                (case fit args features of
                   Inl e \<Rightarrow> Inl e
                 | Inr fitted \<Rightarrow> Inr (fitted, length (cols features))))))"

section \<open>Feature builder\<close>

definition categorical_features :: "string list" where
  "categorical_features = [''service_code'', ''region'', ''usage_type'', ''day_of_week'', ''month'']"

definition numerical_features :: "string list" where
  "numerical_features = [''daily_egress_cost_usd'', ''daily_egress_usage_amount'']"

text \<open>
  The \<open>handle_unknown\<close> option of the one-hot encoder, and the value the source passes:
  \<open>OneHotEncoder(handle_unknown='ignore')\<close>.
\<close>

datatype handle_unknown = Error_on_unknown | Ignore_unknown

definition preprocessor_handle_unknown :: handle_unknown where
  "preprocessor_handle_unknown = Ignore_unknown"

text \<open>
  Modelled from the spec: the empty-input guard of the feature builder (the input
  validation of scikit-learn, which the \<open>ColumnTransformer\<close> reaches first in its
  \<open>StandardScaler\<close>; that code is not in the repository). Zero rows are refused before
  anything is computed. The exception is the one the library raises there, a
  \<open>ValueError\<close>; the shape in its text has the two numerical columns.
\<close>

definition check_samples :: "dataframe \<Rightarrow> exn + dataframe" where
  "check_samples df =
     (if nrows df = 0
      then Inl (PyError ''ValueError''
                  ''Found array with 0 sample(s) (shape=(0, 2)) while a minimum of 1 is required by StandardScaler.'')
      else Inr df)"

text \<open>
  Modelled from the spec: \<open>fit\<close>, \<open>transform\<close> and \<open>fit_transform\<close> of the preprocessor
  (scikit-learn's \<open>ColumnTransformer\<close>, not in the repository): each validates its
  input and then does the numerical work, which is a parameter here: \<open>compute_fit\<close>
  for the statistics and vocabularies, \<open>apply_fit\<close> for the encoding of a frame.
\<close>

record 'f preprocessor_work =
  compute_fit :: "dataframe \<Rightarrow> exn + 'f"
  apply_fit :: "'f \<Rightarrow> dataframe \<Rightarrow> exn + dataframe"

definition preprocessor_fit :: "'f preprocessor_work \<Rightarrow> dataframe \<Rightarrow> exn + 'f" where
  "preprocessor_fit work df =
     (case check_samples df of Inl e \<Rightarrow> Inl e | Inr checked \<Rightarrow> compute_fit work checked)"

definition preprocessor_transform :: "'f preprocessor_work \<Rightarrow> 'f \<Rightarrow> dataframe
    \<Rightarrow> exn + dataframe" where
  "preprocessor_transform work fitted df =
     (case check_samples df of Inl e \<Rightarrow> Inl e | Inr checked \<Rightarrow> apply_fit work fitted checked)"

definition preprocessor_fit_transform :: "'f preprocessor_work \<Rightarrow> dataframe \<Rightarrow> exn + dataframe" where
  "preprocessor_fit_transform work df =
     (case preprocessor_fit work df of
        Inl e \<Rightarrow> Inl e
      | Inr fitted \<Rightarrow> preprocessor_transform work fitted df)"

text \<open>
  The main block of \<open>feature_engineering.py\<close>. \<open>load\<close> is the concatenation of the
  Parquet files and \<open>add_time_features\<close> the five calendar columns; then comes the call
  \<open>preprocessor.fit_transform(df)\<close>, whose result is converted back to a frame. The
  script never calls \<open>fit\<close> or \<open>transform\<close> on its own.
\<close>

definition feature_engineering_main :: "string list \<Rightarrow> (string list \<Rightarrow> exn + dataframe)
    \<Rightarrow> (dataframe \<Rightarrow> exn + dataframe) \<Rightarrow> 'f preprocessor_work \<Rightarrow> exn + dataframe" where
  "feature_engineering_main input_files load add_time_features work =
     (if input_files = [] then
        Inl (PyError ''ValueError'' ''No input files found for processing.'')
      else
        (case load input_files of
           Inl e \<Rightarrow> Inl e
         | Inr df \<Rightarrow>
             (case add_time_features df of
                Inl e \<Rightarrow> Inl e
              | Inr dated \<Rightarrow> preprocessor_fit_transform work dated)))"

text \<open>
  One row of the frame the preprocessor sees, with the seven columns it selects.
\<close>

record observation =
  daily_egress_cost_usd :: real
  daily_egress_usage_amount :: real
  service_code :: string
  region :: string
  usage_type :: string
  day_of_week :: int
  month :: int

text \<open>
  Modelled from the spec: the fitted transform (scikit-learn's fitted \<open>ColumnTransformer\<close>,
  whose code is not in the repository): the scaling of each numerical field, frozen at
  fit time, and the vocabulary of each categorical field.
\<close>

record fitted_transform =
  scale_cost :: "real \<Rightarrow> real"
  scale_usage :: "real \<Rightarrow> real"
  service_codes :: "string list"
  regions :: "string list"
  usage_types :: "string list"
  days_of_week :: "int list"
  months :: "int list"

text \<open>
  Modelled from the spec: the one-hot indicator block of a value over a vocabulary
  (scikit-learn's \<open>OneHotEncoder\<close>): one column per category seen at fit time, 1 in the
  column of the value.
\<close>

definition indicator :: "'a list \<Rightarrow> 'a \<Rightarrow> real list" where
  "indicator categories v = map (\<lambda>c. if c = v then 1 else 0) categories"

text \<open>
  Modelled from the spec: the encoding of one categorical field under the
  \<open>handle_unknown\<close> option (scikit-learn's \<open>OneHotEncoder.transform\<close>): a value outside
  the vocabulary raises under \<open>error\<close> and is encoded like any other under \<open>ignore\<close>.
\<close>

definition encode_category :: "handle_unknown \<Rightarrow> 'a list \<Rightarrow> 'a \<Rightarrow> exn + real list" where
  "encode_category opt categories v =
     (if v \<notin> set categories \<and> opt = Error_on_unknown
      then Inl (PyError ''ValueError'' ''Found unknown categories during transform'')
      else Inr (indicator categories v))"

text \<open>
  Modelled from the spec: \<open>transform\<close> on one observation (scikit-learn's
  \<open>ColumnTransformer.transform\<close>): the scaled numerical fields in the order of
  \<open>numerical_features\<close>, then the indicator blocks in the order of
  \<open>categorical_features\<close>, with the option the source configures.
\<close>

definition transform_row :: "fitted_transform \<Rightarrow> observation \<Rightarrow> exn + real list" where
  "transform_row ft obs =
     (case encode_category preprocessor_handle_unknown (service_codes ft) (service_code obs) of
        Inl e \<Rightarrow> Inl e
      | Inr b1 \<Rightarrow>
     (case encode_category preprocessor_handle_unknown (regions ft) (region obs) of
        Inl e \<Rightarrow> Inl e
      | Inr b2 \<Rightarrow>
     (case encode_category preprocessor_handle_unknown (usage_types ft) (usage_type obs) of
        Inl e \<Rightarrow> Inl e
      | Inr b3 \<Rightarrow>
     (case encode_category preprocessor_handle_unknown (days_of_week ft) (day_of_week obs) of
        Inl e \<Rightarrow> Inl e
      | Inr b4 \<Rightarrow>
     (case encode_category preprocessor_handle_unknown (months ft) (month obs) of
        Inl e \<Rightarrow> Inl e
      | Inr b5 \<Rightarrow>
          Inr ([scale_cost ft (daily_egress_cost_usd obs),
                scale_usage ft (daily_egress_usage_amount obs)] @ b1 @ b2 @ b3 @ b4 @ b5))))))"

section \<open>An in-memory stand-in for the services\<close>

text \<open>
  To run the handlers on concrete inputs the clients are instantiated with a small
  in-memory world: buckets with their public-access configuration, security groups
  with their ingress permissions, and a notification sink that is up or down.
\<close>

record mem =
  mem_buckets :: "(string \<times> public_access_block option) list"
  mem_groups :: "(string \<times> ip_permission list) list"
  mem_sink_up :: bool
  mem_outbox :: "(string \<times> string \<times> string) list"

definition mem_put :: "string \<Rightarrow> public_access_block \<Rightarrow> mem \<Rightarrow> (exn + unit) \<times> mem" where
  "mem_put b cfg w =
     (case map_of (mem_buckets w) b of
        None \<Rightarrow> (Inl (ClientError ''NoSuchBucket'' ''The specified bucket does not exist''
                        ''PutPublicAccessBlock''), w)
      | Some old \<Rightarrow> (Inr (), w\<lparr>mem_buckets := AList.update b (Some cfg) (mem_buckets w)\<rparr>))"

definition mem_describe :: "string list \<Rightarrow> mem \<Rightarrow> (exn + security_group list) \<times> mem" where
  "mem_describe ids w =
     (if \<forall>g \<in> set ids. map_of (mem_groups w) g \<noteq> None
      then (Inr (map (\<lambda>g. \<lparr>GroupId = g, IpPermissions = the (map_of (mem_groups w) g)\<rparr>) ids), w)
      else (Inl (ClientError ''InvalidGroup.NotFound'' ''The security group does not exist''
                   ''DescribeSecurityGroups''), w))"

definition mem_revoke :: "string \<Rightarrow> ip_permission list \<Rightarrow> mem \<Rightarrow> (exn + unit) \<times> mem" where
  "mem_revoke g ps w =
     (case map_of (mem_groups w) g of
        None \<Rightarrow> (Inl (ClientError ''InvalidGroup.NotFound'' ''The security group does not exist''
                        ''RevokeSecurityGroupIngress''), w)
      | Some old \<Rightarrow>
          (Inr (), w\<lparr>mem_groups := AList.update g (filter (\<lambda>p. p \<notin> set ps) old) (mem_groups w)\<rparr>))"

definition mem_publish :: "string \<Rightarrow> string \<Rightarrow> string \<Rightarrow> mem \<Rightarrow> (exn + unit) \<times> mem" where
  "mem_publish topic subject msg w =
     (if mem_sink_up w then (Inr (), w\<lparr>mem_outbox := mem_outbox w @ [(topic, subject, msg)]\<rparr>)
      else (Inl (ClientError ''InternalError'' ''Service unavailable'' ''Publish''), w))"

definition mem_clients :: "mem remediation_clients" where
  "mem_clients = \<lparr>put_public_access_block = mem_put, describe_security_groups = mem_describe,
                  revoke_security_group_ingress = mem_revoke, sns_publish = mem_publish\<rparr>"

text \<open>What the properties below speak about.\<close>

definition unrestricted :: "ip_permission \<Rightarrow> bool" where
  "unrestricted p =
     (case IpRanges p of None \<Rightarrow> False
      | Some rs \<Rightarrow> list_ex (\<lambda>r. CidrIp r = Some ''0.0.0.0/0'') rs)"

fun revoked_cidrs :: "call list \<Rightarrow> string option list" where
  "revoked_cidrs [] = []"
| "revoked_cidrs (RevokeSecurityGroupIngress g ps # cs) =
     concat (map (\<lambda>p. case IpRanges p of None \<Rightarrow> [] | Some rs \<Rightarrow> map CidrIp rs) ps)
     @ revoked_cidrs cs"
| "revoked_cidrs (c # cs) = revoked_cidrs cs"


text \<open>Sample data: a group with one permission open to the world and one internal.\<close>

definition ssh_world :: ip_permission where
  "ssh_world = \<lparr>IpProtocol = ''tcp'', FromPort = Some 22, ToPort = Some 22,
                IpRanges = Some [\<lparr>CidrIp = Some ''0.0.0.0/0'', Description = None\<rparr>,
                                 \<lparr>CidrIp = Some ''10.0.0.0/8'', Description = None\<rparr>],
                Ipv6Ranges = []\<rparr>"

definition https_internal :: ip_permission where
  "https_internal = \<lparr>IpProtocol = ''tcp'', FromPort = Some 443, ToPort = Some 443,
                     IpRanges = Some [\<lparr>CidrIp = Some ''192.168.0.0/16'', Description = None\<rparr>],
                     Ipv6Ranges = []\<rparr>"

definition sample_world :: mem where
  "sample_world = \<lparr>mem_buckets = [(''my-bucket'', None)],
                   mem_groups = [(''sg-0a1b'', [ssh_world, https_internal])],
                   mem_sink_up = True, mem_outbox = []\<rparr>"

definition sample_topic :: string where
  "sample_topic = ''arn:aws:sns:us-east-1:111122223333:egress-anomalies''"

definition sample_sg_arn :: string where
  "sample_sg_arn = ''arn:aws:ec2:us-east-1:111122223333:security-group/sg-0a1b''"

definition sample_bucket_arn :: string where
  "sample_bucket_arn = ''arn:aws:s3:::my-bucket''"


definition sample_world_blocked :: mem where
  "sample_world_blocked = sample_world\<lparr>mem_buckets := [(''my-bucket'', Some block_all)]\<rparr>"

definition sample_world_revoked :: mem where
  "sample_world_revoked = sample_world\<lparr>mem_groups := [(''sg-0a1b'', [https_internal])]\<rparr>"

definition unknown_action_event :: remediation_event where
  "unknown_action_event = \<lparr>action = Some ''delete_bucket'', resourceId = Some sample_bucket_arn,
                            anomalyDetails = ''{}'', event_json = ''{}''\<rparr>"

text \<open>An in-memory stand-in for the trigger's services.\<close>

record trigger_world =
  tw_object :: "string option"
  tw_endpoint_answer :: "string option"
  tw_sink_up :: bool
  tw_started :: "string list"
  tw_alerts :: "(string \<times> string \<times> string) list"

definition tw_clients :: "trigger_world trigger_clients" where
  "tw_clients =
     \<lparr>s3_get_object = (\<lambda>b k w. case tw_object w of
          None \<Rightarrow> (Inl (ClientError ''NoSuchKey'' ''The specified key does not exist.'' ''GetObject''), w)
        | Some text \<Rightarrow> (Inr text, w)),
      invoke_endpoint = (\<lambda>n p w. case tw_endpoint_answer w of
          None \<Rightarrow> (Inl (ClientError ''ModelError'' ''Received server error (500) from model''
                          ''InvokeEndpoint''), w)
        | Some text \<Rightarrow> (Inr text, w)),
      start_execution = (\<lambda>a i w. (Inr (), w\<lparr>tw_started := tw_started w @ [i]\<rparr>)),
      trigger_publish = (\<lambda>t sj m w.
          if tw_sink_up w then (Inr (), w\<lparr>tw_alerts := tw_alerts w @ [(t, sj, m)]\<rparr>)
          else (Inl (ClientError ''InternalError'' ''Service unavailable'' ''Publish''), w))\<rparr>"

definition sample_env :: environment where
  "sample_env = \<lparr>SAGEMAKER_ENDPOINT_NAME = Some ''egress-anomaly'',
                 PROCESSED_DATA_BUCKET = Some ''processed-data'',
                 SNS_ANOMALY_TOPIC_ARN = Some sample_topic,
                 STEP_FUNCTION_ARN = Some ''arn:aws:states:us-east-1:111122223333:stateMachine:fix'',
                 BEDROCK_MODEL_ID = Some ''anthropic.claude-v2''\<rparr>"

definition sample_context :: lambda_context where
  "sample_context = \<lparr>function_name = ''detector'',
                     invoked_function_arn = ''arn:aws:lambda:us-east-1:111122223333:function:detector''\<rparr>"

definition sample_frame :: dataframe where
  "sample_frame = \<lparr>nrows = 2,
                   cols = [(''service_code'', Object [''AmazonS3'', ''AmazonEC2'']),
                           (''daily_egress_cost_usd'', Float64 [1, 250])]\<rparr>"

definition sample_lib :: trigger_lib where
  "sample_lib = \<lparr>read_parquet = (\<lambda>b. Inr sample_frame), to_json = (\<lambda>d. ''[]''),
                 parse_results = (\<lambda>t. Inr sample_frame), json_dumps = (\<lambda>i. Inr ''{}''),
                 now = ''2026-01-01 00:00:00''\<rparr>"

definition tw_no_data :: trigger_world where
  "tw_no_data = \<lparr>tw_object = None, tw_endpoint_answer = Some ''[]'', tw_sink_up = True,
                 tw_started = [], tw_alerts = []\<rparr>"

definition tw_data :: trigger_world where
  "tw_data = \<lparr>tw_object = Some ''PAR1'', tw_endpoint_answer = None, tw_sink_up = True,
              tw_started = [], tw_alerts = []\<rparr>"

text \<open>
  A stand-in for the analyzer's services in which all three evidence sources have
  nothing to report and the text model answers.
\<close>

definition quiet_clients :: "unit analyzer_clients" where
  "quiet_clients =
     \<lparr>prompt_get_object = (\<lambda>b k w. (Inr ''Explain {anomaly_type} on {resource_id}.'', w)),
      get_resource_config_history = (\<lambda>r w. (Inr [], w)),
      lookup_events = (\<lambda>n t w. (Inr [], w)),
      get_cost_and_usage = (\<lambda>w. (Inr [], w)),
      invoke_model = (\<lambda>m p w. (Inr (Some ''Likely cause: a public bucket.''), w)),
      analyzer_publish = (\<lambda>t sj m w. (Inr (), w))\<rparr>"

definition quiet_lib :: analyzer_lib where
  "quiet_lib = \<lparr>pd_Timestamp = (\<lambda>t. Inr ()),
                prompt_format = (\<lambda>tpl ty rid cost det ctx. Inr (tpl @ ctx))\<rparr>"

definition instance_event :: analyzer_event where
  "instance_event =
     \<lparr>ev_resourceId = Some ''arn:aws:ec2:us-east-1:111122223333:instance/i-0abc12'',
      ev_anomalyType = Some ''EgressCostSpike'', ev_costImpact = Some ''250.0'',
      ev_timestamp = Some ''2026-01-01'', ev_details = ''{}'', ev_json = ''{}''\<rparr>"

text \<open>Sample data for the scorer and the feature builder.\<close>

definition calm_model :: model where
  "calm_model = \<lparr>predict = (\<lambda>df. Inr (replicate (nrows df) 1)),
                 decision_function = (\<lambda>df. Inr (replicate (nrows df) (1 / 10)))\<rparr>"

definition spike_model :: model where
  "spike_model = \<lparr>predict = (\<lambda>df. Inr [1, - 1]),
                  decision_function = (\<lambda>df. Inr [1 / 10, - (1 / 5)])\<rparr>"

definition no_rows :: dataframe where
  "no_rows = \<lparr>nrows = 0, cols = [(''daily_egress_cost_usd'', Float64 [])]\<rparr>"

definition rescored_frame :: dataframe where
  "rescored_frame = \<lparr>nrows = 1, cols = [(''is_anomaly'', Int64 [7]),
                                         (''daily_egress_cost_usd'', Float64 [3 / 2])]\<rparr>"

definition sample_fit :: fitted_transform where
  "sample_fit = \<lparr>scale_cost = (\<lambda>x. x - 2), scale_usage = (\<lambda>x. x / 4),
                 service_codes = [''AmazonEC2'', ''AmazonS3''], regions = [''us-east-1''],
                 usage_types = [''DataTransfer-Out-Bytes''], days_of_week = [0, 1, 2],
                 months = [1]\<rparr>"

definition unseen_service :: observation where
  "unseen_service = \<lparr>daily_egress_cost_usd = 5, daily_egress_usage_amount = 8,
                     service_code = ''AmazonCloudFront'', region = ''us-east-1'',
                     usage_type = ''DataTransfer-Out-Bytes'', day_of_week = 2, month = 1\<rparr>"

definition default_args :: hyperparameters where
  "default_args = \<lparr>n_estimators = 100, contamination = 1 / 100, random_state = 42\<rparr>"

definition precise_cost :: real where
  "precise_cost = 1 + 1 / 2 ^ 40"

definition precise_frame :: dataframe where
  "precise_frame = \<lparr>nrows = 1, cols = [(''daily_egress_cost_usd'', Float64 [precise_cost])]\<rparr>"

definition idle_work :: "unit preprocessor_work" where
  "idle_work = \<lparr>compute_fit = (\<lambda>df. Inr ()), apply_fit = (\<lambda>fitted df. Inr df)\<rparr>"

section \<open>Properties of the remediation orchestrator\<close>


subsection \<open>Evaluation of the sample data\<close>

lemma upper_skipped: "upper ''skipped'' = ''SKIPPED''"
  by code_simp

lemma sample_sg_id: "last (split_py sample_sg_arn ''/'') = ''sg-0a1b''"
  by (simp add: sample_sg_arn_def split_py_def)


lemma sample_describe:
  "describe_security_groups mem_clients [''sg-0a1b''] sample_world =
     (Inr [\<lparr>GroupId = ''sg-0a1b'', IpPermissions = [ssh_world, https_internal]\<rparr>], sample_world)"
  by (simp add: mem_clients_def mem_describe_def sample_world_def)

lemma sample_selection: "ingress_rules_to_revoke [ssh_world, https_internal] = [ssh_world]"
  by (simp add: ingress_rules_to_revoke_def ssh_world_def https_internal_def)

lemma sample_unrestricted: "unrestricted ssh_world" "\<not> unrestricted https_internal"
  by (simp_all add: unrestricted_def ssh_world_def https_internal_def)


lemma sample_put_second:
  "put_public_access_block mem_clients ''my-bucket'' block_all sample_world_blocked
     = (Inr (), sample_world_blocked)"
  by (simp add: mem_clients_def mem_put_def sample_world_def sample_world_blocked_def)

lemma sample_first_revoke:
  "remediate_security_group mem_clients sample_sg_arn (sample_world, []) =
     (Inr \<lparr>status = ''success'',
           message = ''Revoked overly permissive ingress rules from SG sg-0a1b.''\<rparr>,
      (sample_world_revoked,
       [DescribeSecurityGroups [''sg-0a1b''], RevokeSecurityGroupIngress ''sg-0a1b'' [ssh_world]]))"
  by (simp add: remediate_security_group_def Let_def sample_sg_id ec2_describe_def
        sample_describe sample_selection ec2_revoke_def)
     (simp add: mem_clients_def mem_revoke_def sample_world_def sample_world_revoked_def
        ssh_world_def https_internal_def)

lemma sample_describe_after:
  "describe_security_groups mem_clients [''sg-0a1b''] sample_world_revoked =
     (Inr [\<lparr>GroupId = ''sg-0a1b'', IpPermissions = [https_internal]\<rparr>], sample_world_revoked)"
  by (simp add: mem_clients_def mem_describe_def sample_world_def sample_world_revoked_def)

subsection \<open>Which permissions are selected\<close>





subsection \<open>The handler mirrors the outcome of the dispatched function\<close>


lemma try_mirrors_outcome:
  assumes "(if act = ''remediate_s3_public_access''
            then remediate_s3_public_access cl resource_id s
            else if act = ''remediate_security_group''
            then remediate_security_group cl resource_id s
            else (Inr \<lparr>status = ''skipped'',
                       message = ''Unknown action '' @ [CHR 0x27] @ act @ [CHR 0x27] @ ''.''\<rparr>, s))
           = (Inr r, s1)"
    and "publish cl topic
           (''Egress Remediation Status: '' @ upper (status r) @ '' for '' @ act
              @ '' on '' @ resource_id)
           (''Remediation Action: '' @ act @ [CHR 0x0A]
              @ ''Resource ID: '' @ resource_id @ [CHR 0x0A]
              @ ''Status: '' @ status r @ [CHR 0x0A]
              @ ''Message: '' @ message r @ [CHR 0x0A]
              @ ''Anomaly Details: '' @ details) s1 = (Inr (), s2)"
  shows "remediation_try topic cl act resource_id details s =
           (Inr \<lparr>statusCode = 200, body = JsonResult r, llm_analysis = None\<rparr>, s2)"
  unfolding remediation_try_def using assms by (simp add: Let_def)

subsection \<open>Security-group remediation\<close>


text \<open>
  C1 fails on the code. The loop tests each range of an entry for \<open>0.0.0.0/0\<close> and then
  puts the whole entry on the revoke list, so the other ranges of that entry are
  revoked with it. The sample group allows port 22 from \<open>0.0.0.0/0\<close> and from
  \<open>10.0.0.0/8\<close>: the one revoke request the function sends carries both ranges, and
  the internal range is revoked although its CIDR is not the unrestricted one.
\<close>

theorem revokes_sibling_range:
  "remediate_security_group mem_clients sample_sg_arn (sample_world, []) =
     (Inr \<lparr>status = ''success'',
           message = ''Revoked overly permissive ingress rules from SG sg-0a1b.''\<rparr>,
      (sample_world_revoked,
       [DescribeSecurityGroups [''sg-0a1b''], RevokeSecurityGroupIngress ''sg-0a1b'' [ssh_world]]))
   \<and> revoked_cidrs (snd (snd (remediate_security_group mem_clients sample_sg_arn (sample_world, []))))
       = [Some ''0.0.0.0/0'', Some ''10.0.0.0/8'']"
  by (simp add: sample_first_revoke) (simp add: ssh_world_def)

subsection \<open>Unknown actions\<close>

text \<open>
  C2, as stated, fails: the status publish that follows the dispatch is inside the
  \<open>try\<close> block, so an unknown action whose publish is rejected does not end as
  \<open>skipped\<close>. With the sink down, the publish of the \<open>except\<close> clause is rejected too and
  the exception leaves the handler.
\<close>

theorem unknown_action_sink_down_counterexample:
  "fst (lambda_handler_remediation (Some sample_topic) mem_clients unknown_action_event
          (sample_world\<lparr>mem_sink_up := False\<rparr>, []))
   = Inl (ClientError ''InternalError'' ''Service unavailable'' ''Publish'')"
  by (simp add: lambda_handler_remediation_def remediation_try_def publish_def Let_def
        mem_clients_def mem_publish_def sample_world_def sample_topic_def sample_bucket_arn_def
        unknown_action_event_def)

text \<open>
  C2, amended: for a request that passes the two checks of the handler (topic
  configured, \<open>action\<close> and \<open>resourceId\<close> present and non-empty) and whose action is
  neither \<open>remediate_s3_public_access\<close> nor \<open>remediate_security_group\<close>, no request the
  handler sends is a mutating one, whatever the services answer; and when the sink
  accepts the status publish, the handler returns 200 with status \<open>skipped\<close> and the
  message naming the action, having sent that publish and nothing else.
\<close>

theorem unknown_action_skipped:
  assumes "truthy topic_arn" and "truthy (action event)" and "truthy (resourceId event)"
    and "the (action event) \<noteq> ''remediate_s3_public_access''"
    and "the (action event) \<noteq> ''remediate_security_group''"
  shows "(\<forall>c \<in> set (snd (snd (lambda_handler_remediation topic_arn cl event (w, [])))).
            \<not> is_mutating c)
       \<and> (\<forall>w'. sns_publish cl (the topic_arn)
                  (''Egress Remediation Status: SKIPPED for '' @ the (action event)
                     @ '' on '' @ the (resourceId event))
                  (''Remediation Action: '' @ the (action event) @ [CHR 0x0A]
                     @ ''Resource ID: '' @ the (resourceId event) @ [CHR 0x0A]
                     @ ''Status: skipped'' @ [CHR 0x0A]
                     @ ''Message: Unknown action '' @ [CHR 0x27] @ the (action event)
                     @ [CHR 0x27] @ ''.'' @ [CHR 0x0A]
                     @ ''Anomaly Details: '' @ anomalyDetails event) w = (Inr (), w')
            \<longrightarrow> lambda_handler_remediation topic_arn cl event (w, []) =
                  (Inr \<lparr>statusCode = 200,
                        body = JsonResult \<lparr>status = ''skipped'',
                                 message = ''Unknown action '' @ [CHR 0x27] @ the (action event)
                                             @ [CHR 0x27] @ ''.''\<rparr>,
                        llm_analysis = None\<rparr>,
                   (w', [SnsPublish (the topic_arn)
                          (''Egress Remediation Status: SKIPPED for '' @ the (action event)
                             @ '' on '' @ the (resourceId event))
                          (''Remediation Action: '' @ the (action event) @ [CHR 0x0A]
                             @ ''Resource ID: '' @ the (resourceId event) @ [CHR 0x0A]
                             @ ''Status: skipped'' @ [CHR 0x0A]
                             @ ''Message: Unknown action '' @ [CHR 0x27] @ the (action event)
                             @ [CHR 0x27] @ ''.'' @ [CHR 0x0A]
                             @ ''Anomaly Details: '' @ anomalyDetails event)])))"
  using assms
  by (auto simp: lambda_handler_remediation_def remediation_try_def publish_def Let_def
                 upper_skipped split: prod.splits sum.splits)

theorem unknown_action_skipped_witness:
  "truthy (Some sample_topic) \<and> truthy (action unknown_action_event)
   \<and> truthy (resourceId unknown_action_event)
   \<and> fst (lambda_handler_remediation (Some sample_topic) mem_clients unknown_action_event
            (sample_world, []))
     = Inr \<lparr>statusCode = 200,
            body = JsonResult \<lparr>status = ''skipped'',
                     message = ''Unknown action '' @ [CHR 0x27] @ ''delete_bucket'' @ [CHR 0x27] @ ''.''\<rparr>,
            llm_analysis = None\<rparr>
   \<and> filter is_mutating (snd (snd (lambda_handler_remediation (Some sample_topic) mem_clients
          unknown_action_event (sample_world, [])))) = []"
  using unknown_action_skipped [of "Some sample_topic" unknown_action_event mem_clients sample_world]
  by (simp add: sample_topic_def sample_bucket_arn_def mem_clients_def mem_publish_def
        sample_world_def filter_empty_conv unknown_action_event_def)

subsection \<open>Idempotence\<close>










subsection \<open>Malformed requests\<close>

text \<open>
  C10: with the topic configured, a request whose \<open>action\<close> or \<open>resourceId\<close> is missing
  (or empty) is answered with 400 Bad Request, and the handler sends no request at
  all: the world and the (empty) log come back unchanged, so there is no mutating call
  and no publish.
\<close>

theorem bad_request_no_calls:
  assumes "truthy topic_arn"
    and "\<not> truthy (action event) \<or> \<not> truthy (resourceId event)"
  shows "lambda_handler_remediation topic_arn cl event (w, []) =
           (Inr \<lparr>statusCode = 400, body = JsonStr ''Bad Request: Missing action or resourceId.'',
                 llm_analysis = None\<rparr>, (w, []))"
  using assms by (simp add: lambda_handler_remediation_def)

theorem bad_request_no_calls_witness:
  "truthy (Some sample_topic)
   \<and> \<not> truthy (resourceId (unknown_action_event\<lparr>resourceId := None\<rparr>))
   \<and> lambda_handler_remediation (Some sample_topic) mem_clients
        (unknown_action_event\<lparr>resourceId := None\<rparr>) (sample_world, [])
     = (Inr \<lparr>statusCode = 400, body = JsonStr ''Bad Request: Missing action or resourceId.'',
             llm_analysis = None\<rparr>, (sample_world, []))"
  using bad_request_no_calls [of "Some sample_topic" "unknown_action_event\<lparr>resourceId := None\<rparr>"
          mem_clients sample_world]
  by (simp add: sample_topic_def)

section \<open>Properties of the detection trigger\<close>

text \<open>
  C8: with the configuration present, when the fetch of the latest feature batch is
  answered with \<open>NoSuchKey\<close>, the handler returns 200 with the body "No new data for
  inference." and the fetch is the only request it sent: the endpoint is not invoked,
  no execution is started and nothing is published.
\<close>

theorem no_data_is_success:
  assumes "truthy (SAGEMAKER_ENDPOINT_NAME env)" and "truthy (PROCESSED_DATA_BUCKET env)"
    and "truthy (SNS_ANOMALY_TOPIC_ARN env)" and "truthy (STEP_FUNCTION_ARN env)"
    and "s3_get_object cl (the (PROCESSED_DATA_BUCKET env))
           ''processed_egress_costs/processed_features/latest_features.parquet'' w
         = (Inl (ClientError ''NoSuchKey'' m opn), w1)"
  shows "lambda_handler_trigger env context cl lib (w, []) =
           (Inr \<lparr>statusCode = 200, body = JsonStr ''No new data for inference.'',
                 llm_analysis = None\<rparr>,
            (w1, [GetObject (the (PROCESSED_DATA_BUCKET env))
                    ''processed_egress_costs/processed_features/latest_features.parquet'']))"
  using assms
  by (simp add: lambda_handler_trigger_def trigger_try_def request_def Let_def)

lemma sample_env_configured:
  "truthy (SAGEMAKER_ENDPOINT_NAME sample_env)" "truthy (PROCESSED_DATA_BUCKET sample_env)"
  "truthy (SNS_ANOMALY_TOPIC_ARN sample_env)" "truthy (STEP_FUNCTION_ARN sample_env)"
  "truthy (BEDROCK_MODEL_ID sample_env)"
  by (simp_all add: sample_env_def sample_topic_def)

theorem no_data_is_success_witness:
  "truthy (SAGEMAKER_ENDPOINT_NAME sample_env) \<and> truthy (PROCESSED_DATA_BUCKET sample_env)
   \<and> truthy (SNS_ANOMALY_TOPIC_ARN sample_env) \<and> truthy (STEP_FUNCTION_ARN sample_env)
   \<and> lambda_handler_trigger sample_env sample_context tw_clients (as_written sample_lib)
        (tw_no_data, []) =
       (Inr \<lparr>statusCode = 200, body = JsonStr ''No new data for inference.'',
             llm_analysis = None\<rparr>,
        (tw_no_data, [GetObject ''processed-data''
                        ''processed_egress_costs/processed_features/latest_features.parquet'']))"
proof -
  have g: "s3_get_object tw_clients (the (PROCESSED_DATA_BUCKET sample_env))
             ''processed_egress_costs/processed_features/latest_features.parquet'' tw_no_data
           = (Inl (ClientError ''NoSuchKey'' ''The specified key does not exist.'' ''GetObject''),
              tw_no_data)"
    by (simp add: tw_clients_def tw_no_data_def)
  show ?thesis
    using sample_env_configured
      no_data_is_success [OF sample_env_configured(1-4) g, of sample_context "as_written sample_lib"]
    by (simp add: sample_env_def)
qed

text \<open>
  Errors of a cycle: a failing model invocation leaves the \<open>try\<close> block as an
  exception, and so does, in the module as written, every fetch that finds the object.
\<close>

lemma scorer_error_is_cycle_error:
  assumes "s3_get_object cl (the (PROCESSED_DATA_BUCKET env))
             ''processed_egress_costs/processed_features/latest_features.parquet'' w = (Inr b, w1)"
    and "read_parquet lib b = Inr df"
    and "invoke_endpoint cl (the (SAGEMAKER_ENDPOINT_NAME env)) (to_json lib df) w1 = (Inl e, w2)"
  shows "trigger_try env cl lib (w, []) =
           (Inl e, (w2, [GetObject (the (PROCESSED_DATA_BUCKET env))
                           ''processed_egress_costs/processed_features/latest_features.parquet'',
                         InvokeEndpoint (the (SAGEMAKER_ENDPOINT_NAME env)) (to_json lib df)]))"
  using assms by (simp add: trigger_try_def request_def Let_def)

lemma as_written_is_cycle_error:
  assumes "s3_get_object cl (the (PROCESSED_DATA_BUCKET env))
             ''processed_egress_costs/processed_features/latest_features.parquet'' w = (Inr b, w1)"
  shows "trigger_try env cl (as_written lib) (w, []) =
           (Inl (PyError ''NameError'' (''name '' @ [CHR 0x27] @ ''io'' @ [CHR 0x27]
                                          @ '' is not defined'')),
            (w1, [GetObject (the (PROCESSED_DATA_BUCKET env))
                    ''processed_egress_costs/processed_features/latest_features.parquet'']))"
  using assms by (simp add: trigger_try_def request_def Let_def as_written_def)

text \<open>
  C7, as stated, fails: the alert is published inside the \<open>except\<close> clause and nothing
  catches an exception of that publish. With a feature batch in the store and the sink
  down, the cycle fails and the handler ends with the exception of the publish instead
  of a result.
\<close>

theorem alert_publish_failure_counterexample:
  "fst (lambda_handler_trigger sample_env sample_context tw_clients (as_written sample_lib)
          (tw_data\<lparr>tw_sink_up := False\<rparr>, []))
     = Inl (ClientError ''InternalError'' ''Service unavailable'' ''Publish'')"
  by (simp add: lambda_handler_trigger_def trigger_try_def request_def Let_def sample_env_def
        sample_topic_def tw_clients_def tw_data_def sample_lib_def as_written_def)

text \<open>
  C7, amended: with the configuration present, whenever the \<open>try\<close> block of a cycle ends
  with an exception (a model-invocation error included), the last request the handler
  sends is the alert publish to the configured topic; and when the sink accepts that
  publish, the handler returns a result with status code 500 that names the error,
  so no exception reaches the caller.
\<close>

theorem cycle_error_is_reported:
  assumes "truthy (SAGEMAKER_ENDPOINT_NAME env)" and "truthy (PROCESSED_DATA_BUCKET env)"
    and "truthy (SNS_ANOMALY_TOPIC_ARN env)" and "truthy (STEP_FUNCTION_ARN env)"
    and "trigger_try env cl lib (w, []) = (Inl e, (w1, sent))"
  shows "snd (snd (lambda_handler_trigger env context cl lib (w, []))) =
           sent @ [SnsPublish (the (SNS_ANOMALY_TOPIC_ARN env))
                    (''CRITICAL: Egress Anomaly Detector Trigger Failed in '' @ function_name context)
                    ((if is_ClientError e then ''An AWS client error occurred: '' @ error_message e
                      else ''An unexpected error occurred: '' @ str_exn e)
                     @ [CHR 0x0A] @ ''Function ARN: '' @ invoked_function_arn context)]
       \<and> (\<forall>w2. trigger_publish cl (the (SNS_ANOMALY_TOPIC_ARN env))
                  (''CRITICAL: Egress Anomaly Detector Trigger Failed in '' @ function_name context)
                  ((if is_ClientError e then ''An AWS client error occurred: '' @ error_message e
                    else ''An unexpected error occurred: '' @ str_exn e)
                   @ [CHR 0x0A] @ ''Function ARN: '' @ invoked_function_arn context) w1 = (Inr (), w2)
              \<longrightarrow> fst (lambda_handler_trigger env context cl lib (w, [])) =
                    Inr \<lparr>statusCode = 500,
                         body = JsonStr (if is_ClientError e
                                         then ''AWS Client Error: '' @ error_message e
                                         else ''Internal Server Error: '' @ str_exn e),
                         llm_analysis = None\<rparr>
                  \<and> fst (snd (lambda_handler_trigger env context cl lib (w, []))) = w2)"
  using assms
  by (cases "is_ClientError e")
     (auto simp: lambda_handler_trigger_def request_def Let_def split: prod.splits sum.splits)

text \<open>
  The module as written, on a world that holds a feature batch: the fetch succeeds,
  \<open>io\<close> is unbound, and the cycle ends with the alert and a 500.
\<close>

theorem cycle_error_is_reported_witness:
  "truthy (SAGEMAKER_ENDPOINT_NAME sample_env) \<and> truthy (PROCESSED_DATA_BUCKET sample_env)
   \<and> truthy (SNS_ANOMALY_TOPIC_ARN sample_env) \<and> truthy (STEP_FUNCTION_ARN sample_env)
   \<and> fst (trigger_try sample_env tw_clients (as_written sample_lib) (tw_data, []))
       = Inl (PyError ''NameError'' (''name '' @ [CHR 0x27] @ ''io'' @ [CHR 0x27]
                                      @ '' is not defined''))
   \<and> fst (lambda_handler_trigger sample_env sample_context tw_clients (as_written sample_lib)
            (tw_data, []))
       = Inr \<lparr>statusCode = 500,
              body = JsonStr (''Internal Server Error: name '' @ [CHR 0x27] @ ''io'' @ [CHR 0x27]
                              @ '' is not defined''),
              llm_analysis = None\<rparr>
   \<and> filter is_publish (snd (snd (lambda_handler_trigger sample_env sample_context tw_clients
                                      (as_written sample_lib) (tw_data, []))))
       = [SnsPublish sample_topic ''CRITICAL: Egress Anomaly Detector Trigger Failed in detector''
            (''An unexpected error occurred: name '' @ [CHR 0x27] @ ''io'' @ [CHR 0x27]
             @ '' is not defined'' @ [CHR 0x0A]
             @ ''Function ARN: arn:aws:lambda:us-east-1:111122223333:function:detector'')]"
proof -
  have g: "s3_get_object tw_clients (the (PROCESSED_DATA_BUCKET sample_env))
             ''processed_egress_costs/processed_features/latest_features.parquet'' tw_data
           = (Inr ''PAR1'', tw_data)"
    by (simp add: tw_clients_def tw_data_def)
  note t = as_written_is_cycle_error [OF g, of sample_lib]
  have p: "trigger_publish tw_clients (the (SNS_ANOMALY_TOPIC_ARN sample_env)) sj ms tw_data
             = (Inr (), tw_data\<lparr>tw_alerts := [(sample_topic, sj, ms)]\<rparr>)" for sj ms
    by (simp add: tw_clients_def tw_data_def sample_env_def)
  show ?thesis
    using sample_env_configured t p
      cycle_error_is_reported [OF sample_env_configured(1-4) t, of sample_context]
    by (simp add: sample_env_def sample_context_def)
qed

section \<open>Properties of the Bedrock analyzer\<close>

text \<open>
  The second evidence block subscripts \<open>resource_id.split('/')[6]\<close> before it calls
  CloudTrail. A resource id with fewer than seven pieces raises \<open>IndexError\<close> there,
  which \<open>except ClientError\<close> does not absorb: no evidence text is returned, whatever
  the sources answer.
\<close>

lemma few_parts_no_context:
  assumes "length (split_py resource_id ''/'') < 7"
  shows "isl (fst (get_contextual_data cl lib resource_id ts s))"
  using assms
  by (auto simp: get_contextual_data_def trail_block_def subscript_def except_ClientError_def
        Let_def split: prod.splits sum.splits)

lemma few_parts_never_enriched:
  assumes "length (split_py (or_default (ev_resourceId event) ''N/A'') ''/'') < 7"
  shows "isl (fst (analyzer_try env cl lib event s))"
proof -
  obtain r1 s1 where l: "load_prompt_template cl (the (PROCESSED_DATA_BUCKET env))
                           PROMPT_TEMPLATE_KEY s = (r1, s1)"
    by (cases "load_prompt_template cl (the (PROCESSED_DATA_BUCKET env)) PROMPT_TEMPLATE_KEY s")
  obtain r2 s2 where g: "get_contextual_data cl lib (or_default (ev_resourceId event) ''N/A'')
                           (ev_timestamp event) s1 = (r2, s2)"
    by (cases "get_contextual_data cl lib (or_default (ev_resourceId event) ''N/A'')
                 (ev_timestamp event) s1")
  have "isl r2"
    using few_parts_no_context [OF assms, of cl lib "ev_timestamp event" s1] g by simp
  then obtain e where e: "r2 = Inl e"
    by (cases r2) simp_all
  show ?thesis
    using l g e by (cases r1) (simp_all add: analyzer_try_def Let_def)
qed

text \<open>
  With seven pieces or more the degradation is as C9 describes it: when each of the
  three sources answers with nothing or with a \<open>ClientError\<close>, the evidence text is
  empty and no exception is raised.
\<close>

lemma seven_parts_empty_context:
  assumes "7 \<le> length (split_py resource_id ''/'')"
    and "pd_Timestamp lib ts = Inr ()"
    and "\<And>w. case get_resource_config_history cl resource_id w of
                (Inl e, w') \<Rightarrow> is_ClientError e | (Inr items, w') \<Rightarrow> items = []"
    and "\<And>n t w. case lookup_events cl n t w of
                (Inl e, w') \<Rightarrow> is_ClientError e | (Inr events, w') \<Rightarrow> events = []"
    and "\<And>w. case get_cost_and_usage cl w of
                (Inl e, w') \<Rightarrow> is_ClientError e | (Inr results, w') \<Rightarrow> results = []"
  shows "fst (get_contextual_data cl lib resource_id ts s) = Inr []"
proof -
  have c: "fst (config_block cl resource_id [] s1) = Inr []" for s1
    using assms(3) [of "fst s1"]
    by (auto simp: config_block_def request_def except_ClientError_def append_section_def
          split: prod.splits sum.splits)
  have t: "fst (trail_block cl lib resource_id ts [] s1) = Inr []" for s1
    using assms(1,2) assms(4) [of "last (split_py resource_id ''/'')"
                                  "split_py resource_id ''/'' ! 6" "fst s1"]
    by (auto simp: trail_block_def request_def except_ClientError_def append_section_def
          subscript_def Let_def split: prod.splits sum.splits)
  have k: "fst (cost_block cl lib ts [] s1) = Inr []" for s1
    using assms(2) assms(5) [of "fst s1"]
    by (auto simp: cost_block_def request_def except_ClientError_def append_section_def
          split: prod.splits sum.splits)
  obtain r1 s1 where 1: "config_block cl resource_id [] s = (r1, s1)"
    by (cases "config_block cl resource_id [] s")
  obtain r2 s2 where 2: "trail_block cl lib resource_id ts [] s1 = (r2, s2)"
    by (cases "trail_block cl lib resource_id ts [] s1")
  obtain r3 s3 where 3: "cost_block cl lib ts [] s2 = (r3, s3)"
    by (cases "cost_block cl lib ts [] s2")
  have "r1 = Inr []" using c [of s] 1 by simp
  moreover have "r2 = Inr []" using t [of s1] 2 by simp
  moreover have "r3 = Inr []" using k [of s2] 3 by simp
  ultimately show ?thesis
    using 1 2 3 by (simp add: get_contextual_data_def join_def)
qed

text \<open>
  C9 fails on the code. The event names an EC2 instance by its ARN (one slash, two
  pieces); all three sources have nothing to report, the template loads and the text
  model answers. The handler never reaches the model: it publishes the failure alert
  and returns 500.
\<close>

theorem enrich_fails_on_instance_arn:
  "lambda_handler_analyzer sample_env quiet_clients quiet_lib instance_event ((), []) =
     (Inr \<lparr>statusCode = 500, body = JsonStr ''Internal Server Error: list index out of range'',
           llm_analysis = None\<rparr>,
      ((), [GetObject ''processed-data'' ''bedrock_prompts/egress_root_cause_prompt.txt'',
            GetResourceConfigHistory ''arn:aws:ec2:us-east-1:111122223333:instance/i-0abc12'',
            SnsPublish sample_topic
              ''CRITICAL: Bedrock Analyzer Failed for arn:aws:ec2:us-east-1:111122223333:instance/i-0abc12''
              (''Bedrock analysis failed for anomaly on resource ''
               @ ''arn:aws:ec2:us-east-1:111122223333:instance/i-0abc12''
               @ '' (Type: EgressCostSpike). Error: list index out of range'' @ [CHR 0x0A]
               @ ''Full event: {}'')]))"
  by (simp add: lambda_handler_analyzer_def analyzer_try_def get_contextual_data_def
        config_block_def trail_block_def subscript_def except_ClientError_def
        append_section_def load_prompt_template_def publish_enriched_alert_def request_def
        PROMPT_TEMPLATE_KEY_def or_default_def Let_def split_py_def
        sample_env_def sample_topic_def quiet_clients_def quiet_lib_def instance_event_def)

section \<open>Properties of the anomaly scorer\<close>

lemma map_update_values:
  "map (\<lambda>c. (fst c, g (snd c))) (AList.update k v xs) =
     AList.update k (g v) (map (\<lambda>c. (fst c, g (snd c))) xs)"
  by (induction xs) auto

lemma update_fresh: "k \<notin> fst ` set xs \<Longrightarrow> AList.update k v xs = xs @ [(k, v)]"
  by (induction xs) auto

lemma to_records_length: "length (to_records df) = nrows df"
  by (simp add: to_records_def)

lemma to_records_nth:
  "i < nrows df \<Longrightarrow> to_records df ! i = map (\<lambda>c. (fst c, col_cells (snd c) ! i)) (cols df)"
  by (simp add: to_records_def)

lemma to_records_set_column:
  assumes "i < nrows df"
  shows "to_records (df\<lparr>cols := AList.update k col (cols df)\<rparr>) ! i =
           AList.update k (col_cells col ! i) (to_records df ! i)"
  using assms
  by (simp add: to_records_nth map_update_values [where g = "\<lambda>c. col_cells c ! i"])

lemma predict_fn_result:
  assumes "\<not> empty_df (select_dtypes_number input_data)"
    and "predict mdl (select_dtypes_number input_data) = Inr predictions"
    and "length predictions = nrows input_data"
    and "decision_function mdl (select_dtypes_number input_data) = Inr scores"
    and "length scores = nrows input_data"
  shows "predict_fn input_data mdl =
           Inr (input_data\<lparr>cols :=
                  AList.update ''anomaly_score'' (Float64 scores)
                    (AList.update ''is_anomaly''
                       (Int64 (map (\<lambda>p. if p = - 1 then 1 else 0) predictions))
                       (cols input_data))\<rparr>)"
  using assms by (simp add: predict_fn_def set_column_def Let_def)

lemma ten_decimals_samples:
  "ten_decimals 1 = 1" "ten_decimals 250 = 250" "ten_decimals (3 / 2) = 3 / 2"
  "ten_decimals (1 / 10) = 1 / 10" "ten_decimals (- (1 / 5)) = - (1 / 5)"
  "ten_decimals precise_cost = 1"
  by (simp_all add: ten_decimals_def round_def precise_cost_def)

text \<open>
  C4, as stated, fails three times. A request with no rows is refused with
  \<open>ValueError\<close> instead of answered with no rows. A row that already has a field
  \<open>is_anomaly\<close> gets it overwritten, so that field of the input is not unchanged and
  only one field is added. And a float field comes back as the JSON encoder writes
  it: a cost of \<open>1 + 1 / 2 ^ 40\<close> is returned as \<open>1\<close>.
\<close>

theorem score_counterexample:
  "score ten_decimals no_rows calm_model ''application/json'' =
     Inl (PyError ''ValueError''
            ''No numerical features found in input data for prediction. Check input schema.'')
   \<and> to_records rescored_frame = [[(''is_anomaly'', IntV 7), (''daily_egress_cost_usd'', FloatV (3 / 2))]]
   \<and> score ten_decimals rescored_frame calm_model ''application/json'' =
       Inr (JsonRecords [[(''is_anomaly'', IntV 0), (''daily_egress_cost_usd'', FloatV (3 / 2)),
                          (''anomaly_score'', FloatV (1 / 10))]], ''application/json'')
   \<and> precise_cost \<noteq> 1
   \<and> to_records precise_frame = [[(''daily_egress_cost_usd'', FloatV precise_cost)]]
   \<and> score ten_decimals precise_frame calm_model ''application/json'' =
       Inr (JsonRecords [[(''daily_egress_cost_usd'', FloatV 1), (''is_anomaly'', IntV 0),
                          (''anomaly_score'', FloatV (1 / 10))]], ''application/json'')"
  by (simp add: score_def predict_fn_def output_fn_def select_dtypes_number_def empty_df_def
        set_column_def to_records_def no_rows_def rescored_frame_def precise_frame_def
        calm_model_def json_record_def ten_decimals_samples Let_def)
     (simp add: precise_cost_def)

text \<open>
  C4, amended: for a request with N rows, N at least 1, and at least one numeric
  column, scored by a model that answers with N predictions and N decision values,
  \<open>score\<close> returns exactly N rows in the order of the input. Row i is input row i with
  the field \<open>is_anomaly\<close> set to 1 if prediction i is -1 and to 0 otherwise and the
  field \<open>anomaly_score\<close> set to decision value i, every other field kept; each float of
  the row is returned as the JSON encoder writes it (\<open>json_float\<close>, 10 decimals by
  default), integers and strings as they are. When the input has no field of the two
  names, the two are added after the original fields.
\<close>

theorem score_rows:
  assumes "\<not> empty_df (select_dtypes_number input_data)"
    and "predict mdl (select_dtypes_number input_data) = Inr predictions"
    and "length predictions = nrows input_data"
    and "decision_function mdl (select_dtypes_number input_data) = Inr scores"
    and "length scores = nrows input_data"
  shows "\<exists>rows. score json_float input_data mdl ''application/json''
                   = Inr (JsonRecords rows, ''application/json'')
           \<and> length rows = nrows input_data
           \<and> (\<forall>i < nrows input_data.
                 rows ! i =
                   json_record json_float
                     (AList.update ''anomaly_score'' (FloatV (scores ! i))
                        (AList.update ''is_anomaly'' (IntV (if predictions ! i = - 1 then 1 else 0))
                           (to_records input_data ! i)))
                 \<and> (''is_anomaly'' \<notin> fst ` set (cols input_data)
                      \<and> ''anomaly_score'' \<notin> fst ` set (cols input_data)
                    \<longrightarrow> rows ! i =
                          json_record json_float (to_records input_data ! i)
                          @ [(''is_anomaly'', IntV (if predictions ! i = - 1 then 1 else 0)),
                             (''anomaly_score'', FloatV (json_float (scores ! i)))]))"
proof -
  let ?flags = "Int64 (map (\<lambda>p. if p = - 1 then 1 else 0) predictions)"
  let ?flagged = "input_data\<lparr>cols := AList.update ''is_anomaly'' ?flags (cols input_data)\<rparr>"
  let ?out = "?flagged\<lparr>cols := AList.update ''anomaly_score'' (Float64 scores) (cols ?flagged)\<rparr>"
  let ?rows = "map (json_record json_float) (to_records ?out)"
  have out: "predict_fn input_data mdl = Inr ?out"
    using predict_fn_result [OF assms] by simp
  have sc: "score json_float input_data mdl ''application/json'' =
              Inr (JsonRecords ?rows, ''application/json'')"
    by (simp add: score_def out output_fn_def)
  have len: "length ?rows = nrows input_data"
    by (simp add: to_records_length)
  have raw: "to_records ?out ! i =
               AList.update ''anomaly_score'' (FloatV (scores ! i))
                 (AList.update ''is_anomaly'' (IntV (if predictions ! i = - 1 then 1 else 0))
                    (to_records input_data ! i))"
    if i: "i < nrows input_data" for i
  proof -
    have "to_records ?out ! i =
            AList.update ''anomaly_score'' (col_cells (Float64 scores) ! i) (to_records ?flagged ! i)"
      using i to_records_set_column [of i ?flagged "''anomaly_score''" "Float64 scores"] by simp
    also have "to_records ?flagged ! i =
                 AList.update ''is_anomaly'' (col_cells ?flags ! i) (to_records input_data ! i)"
      using i by (rule to_records_set_column)
    finally show ?thesis
      using i assms(3,5) by simp
  qed
  have row: "?rows ! i =
               json_record json_float
                 (AList.update ''anomaly_score'' (FloatV (scores ! i))
                    (AList.update ''is_anomaly'' (IntV (if predictions ! i = - 1 then 1 else 0))
                       (to_records input_data ! i)))"
    if i: "i < nrows input_data" for i
    using i raw [OF i] by (simp add: to_records_length)
  have fresh: "?rows ! i =
                 json_record json_float (to_records input_data ! i)
                 @ [(''is_anomaly'', IntV (if predictions ! i = - 1 then 1 else 0)),
                    (''anomaly_score'', FloatV (json_float (scores ! i)))]"
    if i: "i < nrows input_data"
      and f: "''is_anomaly'' \<notin> fst ` set (cols input_data)"
             "''anomaly_score'' \<notin> fst ` set (cols input_data)" for i
  proof -
    have keys: "fst ` set (to_records input_data ! i) = fst ` set (cols input_data)"
      using i by (force simp: to_records_nth)
    show ?thesis
      using row [OF i] f keys by (simp add: update_fresh json_record_def)
  qed
  from sc len row fresh show ?thesis
    by blast
qed

theorem score_rows_witness:
  "\<not> empty_df (select_dtypes_number sample_frame)
   \<and> predict spike_model (select_dtypes_number sample_frame) = Inr [1, - 1]
   \<and> length [1, - 1 :: int] = nrows sample_frame
   \<and> score ten_decimals sample_frame spike_model ''application/json'' =
       Inr (JsonRecords
              [[(''service_code'', StrV ''AmazonS3''), (''daily_egress_cost_usd'', FloatV 1),
                (''is_anomaly'', IntV 0), (''anomaly_score'', FloatV (1 / 10))],
               [(''service_code'', StrV ''AmazonEC2''), (''daily_egress_cost_usd'', FloatV 250),
                (''is_anomaly'', IntV 1), (''anomaly_score'', FloatV (- (1 / 5)))]],
            ''application/json'')"
proof -
  have h1: "\<not> empty_df (select_dtypes_number sample_frame)"
    by (simp add: empty_df_def select_dtypes_number_def sample_frame_def)
  have h2: "predict spike_model (select_dtypes_number sample_frame) = Inr [1, - 1]"
    by (simp add: spike_model_def)
  have h3: "length [1, - 1 :: int] = nrows sample_frame"
    by (simp add: sample_frame_def)
  have h4: "decision_function spike_model (select_dtypes_number sample_frame)
              = Inr [1 / 10, - (1 / 5)]"
    by (simp add: spike_model_def)
  have h5: "length [1 / 10, - (1 / 5) :: real] = nrows sample_frame"
    by (simp add: sample_frame_def)
  obtain rows where r: "score ten_decimals sample_frame spike_model ''application/json'' =
                          Inr (JsonRecords rows, ''application/json'')"
      and l: "length rows = nrows sample_frame"
      and n: "\<forall>i < nrows sample_frame.
                rows ! i =
                  json_record ten_decimals
                    (AList.update ''anomaly_score'' (FloatV ([1 / 10, - (1 / 5)] ! i))
                       (AList.update ''is_anomaly''
                          (IntV (if [1, - 1] ! i = (- 1 :: int) then 1 else 0))
                          (to_records sample_frame ! i)))"
    using score_rows [OF h1 h2 h3 h4 h5, of ten_decimals] by blast
  have two: "nrows sample_frame = 2"
    by (simp add: sample_frame_def)
  have recs: "to_records sample_frame =
                [[(''service_code'', StrV ''AmazonS3''), (''daily_egress_cost_usd'', FloatV 1)],
                 [(''service_code'', StrV ''AmazonEC2''), (''daily_egress_cost_usd'', FloatV 250)]]"
    by (simp add: to_records_def sample_frame_def upt_rec)
  have r0: "rows ! 0 = [(''service_code'', StrV ''AmazonS3''), (''daily_egress_cost_usd'', FloatV 1),
                        (''is_anomaly'', IntV 0), (''anomaly_score'', FloatV (1 / 10))]"
    using n two recs by (simp add: json_record_def ten_decimals_samples)
  have r1: "rows ! 1 = [(''service_code'', StrV ''AmazonEC2''), (''daily_egress_cost_usd'', FloatV 250),
                        (''is_anomaly'', IntV 1), (''anomaly_score'', FloatV (- (1 / 5)))]"
    using n two recs by (simp add: json_record_def ten_decimals_samples)
  have "rows = [rows ! 0, rows ! 1]"
    using l two by (cases rows; cases "tl rows") auto
  with r0 r1 have "rows =
      [[(''service_code'', StrV ''AmazonS3''), (''daily_egress_cost_usd'', FloatV 1),
        (''is_anomaly'', IntV 0), (''anomaly_score'', FloatV (1 / 10))],
       [(''service_code'', StrV ''AmazonEC2''), (''daily_egress_cost_usd'', FloatV 250),
        (''is_anomaly'', IntV 1), (''anomaly_score'', FloatV (- (1 / 5)))]]"
    by simp
  with r h1 h2 h3 show ?thesis
    by simp
qed

subsection \<open>Empty input\<close>

text \<open>With no file to read, the two scripts stop at their first check.\<close>

lemma no_input_files_raise_ValueError:
  "training_main args [] load fit =
     Inl (PyError ''ValueError''
            ''No input files found in the training channel. Ensure data is correctly passed.'')"
  "feature_engineering_main [] load add_time_features work =
     Inl (PyError ''ValueError'' ''No input files found for processing.'')"
  by (simp_all add: training_main_def feature_engineering_main_def)

text \<open>
  C5, as stated, fails: the code has no \<open>EmptyInputError\<close>. Training on files that hold
  zero rows is refused with a \<open>ValueError\<close>.
\<close>

theorem no_empty_input_error_counterexample:
  "training_main default_args [''part-0.parquet''] (\<lambda>files. Inr no_rows) (\<lambda>args df. Inr calm_model)
     = Inl (PyError ''ValueError''
              ''No numerical features found in the training data. Check feature engineering output.'')
   \<and> exn_class (PyError ''ValueError''
              ''No numerical features found in the training data. Check feature engineering output.'')
       \<noteq> ''EmptyInputError''"
  by (simp add: training_main_def select_dtypes_number_def empty_df_def no_rows_def Let_def)

text \<open>
  C5, amended: each of the four operations fit, transform, train and score fails with
  \<open>ValueError\<close> when given zero rows, rather than succeeding or returning an empty
  result. In the feature-engineering script fit and transform are one \<open>fit_transform\<close>
  call, which fails in the same way on a frame of zero rows.
\<close>

theorem empty_input_raises_ValueError:
  "(nrows df = 0 \<longrightarrow>
      preprocessor_fit work df =
        Inl (PyError ''ValueError''
               ''Found array with 0 sample(s) (shape=(0, 2)) while a minimum of 1 is required by StandardScaler.''))
   \<and> (nrows df = 0 \<longrightarrow>
        preprocessor_transform work fitted df =
          Inl (PyError ''ValueError''
                 ''Found array with 0 sample(s) (shape=(0, 2)) while a minimum of 1 is required by StandardScaler.''))
   \<and> (input_files \<noteq> [] \<longrightarrow> load input_files = Inr df \<longrightarrow> nrows df = 0 \<longrightarrow>
        training_main args input_files load fit =
          Inl (PyError ''ValueError''
                 ''No numerical features found in the training data. Check feature engineering output.''))
   \<and> (nrows df = 0 \<longrightarrow>
        score json_float df mdl accept =
          Inl (PyError ''ValueError''
                 ''No numerical features found in input data for prediction. Check input schema.''))
   \<and> (input_files \<noteq> [] \<longrightarrow> load input_files = Inr df \<longrightarrow> add_time_features df = Inr dated
        \<longrightarrow> nrows dated = 0 \<longrightarrow>
        feature_engineering_main input_files load add_time_features work =
          Inl (PyError ''ValueError''
                 ''Found array with 0 sample(s) (shape=(0, 2)) while a minimum of 1 is required by StandardScaler.''))"
  by (simp add: training_main_def score_def predict_fn_def feature_engineering_main_def
        preprocessor_fit_transform_def preprocessor_fit_def preprocessor_transform_def
        check_samples_def select_dtypes_number_def empty_df_def Let_def)

theorem empty_input_raises_ValueError_witness:
  "[''part-0.parquet''] \<noteq> [] \<and> nrows no_rows = 0
   \<and> preprocessor_fit idle_work no_rows =
       Inl (PyError ''ValueError''
              ''Found array with 0 sample(s) (shape=(0, 2)) while a minimum of 1 is required by StandardScaler.'')
   \<and> preprocessor_transform idle_work () no_rows =
       Inl (PyError ''ValueError''
              ''Found array with 0 sample(s) (shape=(0, 2)) while a minimum of 1 is required by StandardScaler.'')
   \<and> feature_engineering_main [''part-0.parquet''] (\<lambda>files. Inr no_rows) (\<lambda>df. Inr df) idle_work =
       Inl (PyError ''ValueError''
              ''Found array with 0 sample(s) (shape=(0, 2)) while a minimum of 1 is required by StandardScaler.'')
   \<and> training_main default_args [''part-0.parquet''] (\<lambda>files. Inr no_rows)
        (\<lambda>args df. Inr calm_model) =
       Inl (PyError ''ValueError''
              ''No numerical features found in the training data. Check feature engineering output.'')
   \<and> score ten_decimals no_rows spike_model ''text/csv'' =
       Inl (PyError ''ValueError''
              ''No numerical features found in input data for prediction. Check input schema.'')"
  using empty_input_raises_ValueError [of no_rows idle_work "()" "[''part-0.parquet'']"
          "\<lambda>files. Inr no_rows" default_args "\<lambda>args df. Inr calm_model" ten_decimals
          spike_model "''text/csv''" "\<lambda>df. Inr df" no_rows]
  by (simp add: no_rows_def)

section \<open>Properties of the feature builder\<close>

lemma indicator_unseen: "v \<notin> set categories \<Longrightarrow> indicator categories v = replicate (length categories) 0"
  by (induction categories) (auto simp: indicator_def)

lemma indicator_length: "length (indicator categories v) = length categories"
  by (simp add: indicator_def)

lemma error_option_raises:
  "v \<notin> set categories \<Longrightarrow> isl (encode_category Error_on_unknown categories v)"
  by (simp add: encode_category_def)

text \<open>
  C6: with the option the source passes to the encoder, \<open>transform\<close> never raises: the
  feature vector is the two scaled numerical fields followed by the indicator block
  of each categorical field, and the block of a field whose value is not in the fitted
  vocabulary is all zeros, the other columns being what they are for any observation.
\<close>

theorem unseen_category_all_zero:
  "transform_row ft obs =
     Inr ([scale_cost ft (daily_egress_cost_usd obs), scale_usage ft (daily_egress_usage_amount obs)]
          @ indicator (service_codes ft) (service_code obs)
          @ indicator (regions ft) (region obs)
          @ indicator (usage_types ft) (usage_type obs)
          @ indicator (days_of_week ft) (day_of_week obs)
          @ indicator (months ft) (month obs))
   \<and> (service_code obs \<notin> set (service_codes ft) \<longrightarrow>
        indicator (service_codes ft) (service_code obs) = replicate (length (service_codes ft)) 0)
   \<and> (region obs \<notin> set (regions ft) \<longrightarrow>
        indicator (regions ft) (region obs) = replicate (length (regions ft)) 0)
   \<and> (usage_type obs \<notin> set (usage_types ft) \<longrightarrow>
        indicator (usage_types ft) (usage_type obs) = replicate (length (usage_types ft)) 0)
   \<and> (day_of_week obs \<notin> set (days_of_week ft) \<longrightarrow>
        indicator (days_of_week ft) (day_of_week obs) = replicate (length (days_of_week ft)) 0)
   \<and> (month obs \<notin> set (months ft) \<longrightarrow>
        indicator (months ft) (month obs) = replicate (length (months ft)) 0)"
  by (simp add: transform_row_def encode_category_def preprocessor_handle_unknown_def
        indicator_unseen)

theorem unseen_category_all_zero_witness:
  "service_code unseen_service \<notin> set (service_codes sample_fit)
   \<and> transform_row sample_fit unseen_service = Inr [3, 2, 0, 0, 1, 1, 0, 0, 1, 1]"
  using unseen_category_all_zero [of sample_fit unseen_service]
  by (simp add: sample_fit_def unseen_service_def indicator_def)

end
